theory Spec2Isabelle
  imports Main "HOL-Library.Word" "HOL-Library.Signed_Division" "HOL-Library.Monad_Syntax"
begin

unbundle bit_operations_syntax

section \<open>Data model of the SSA package\<close>

text \<open>
  The development embeds two files of \<^verbatim>\<open>cmd/compile/internal/ssa\<close>: the MIPS rewrite
  rules generated from \<^verbatim>\<open>gen/MIPS.rules\<close> (value matchers and the block rewriter) and
  \<^verbatim>\<open>stackalloc.go\<close> (the stack-slot allocator with its spill liveness).

  A Go \<^verbatim>\<open>*Value\<close> is embedded as the value it points to: a matcher reads the fields of
  \<^verbatim>\<open>v\<close> and of its arguments and writes only \<^verbatim>\<open>v\<close>, and the allocator reads only the
  \<^verbatim>\<open>ID\<close> of an argument. Pointer equality of two values is equality of their IDs (an ID is
  unique within one function). Go's \<^verbatim>\<open>ID\<close> is a 32-bit integer that the ID allocator
  hands out from 1 upwards; it is a natural number here.
\<close>

type_synonym ID = nat
type_synonym int64 = "64 word"
type_synonym int32 = "32 word"

text \<open>Run-time panics of the Go code, as values.\<close>

datatype panic =
    IndexOutOfRange
  | NilDereference
  | IntegerDivideByZero
  | TypeAssertion
  | PanicCall

datatype Op =
    OpInvalid | OpCopy | OpPhi | OpArg | OpStoreReg | OpLoadReg | OpInitMem
  | OpAdd32 | OpConst32 | OpSelect0 | OpSelect1 | OpAdd32carry | OpSub32carry
  | OpMIPSADD | OpMIPSADDconst | OpMIPSSUB | OpMIPSSUBconst | OpMIPSMUL | OpMIPSMULTU
  | OpMIPSDIV | OpMIPSDIVU | OpMIPSNEG | OpMIPSNOR | OpMIPSNORconst
  | OpMIPSAND | OpMIPSANDconst | OpMIPSOR | OpMIPSORconst | OpMIPSXOR | OpMIPSXORconst
  | OpMIPSSLLconst | OpMIPSSRLconst | OpMIPSCMOVZ
  | OpMIPSSGT | OpMIPSSGTconst | OpMIPSSGTzero | OpMIPSSGTU | OpMIPSSGTUconst | OpMIPSSGTUzero
  | OpMIPSMOVWconst | OpMIPSMOVWaddr | OpMIPSMOVWload | OpMIPSMOVWstore
  | OpMIPSFPFlagTrue | OpMIPSFPFlagFalse | OpMIPSCMPEQF

text \<open>
  The type descriptor of a value. \<^verbatim>\<open>Type.Equal\<close> and \<^verbatim>\<open>==\<close> on types are both
  equality of descriptors here.
\<close>

datatype Type =
    TypeInvalid | TypeMem | TypeFlags | TypeVoid
  | TypeBool | TypeInt8 | TypeInt16 | TypeInt32 | TypeInt64
  | TypeUInt8 | TypeUInt16 | TypeUInt32 | TypeUInt64 | TypeBytePtr
  | TypeTuple Type Type

text \<open>A frontend node: a named variable of the source, or a temporary made by \<^verbatim>\<open>Auto\<close>.\<close>

datatype GCNode = NamedNode string | AutoNode nat

datatype Aux = AuxNil | AuxSym string | AuxNode GCNode

datatype Value =
  Value (ID: ID) (Op: Op) (Type: Type) (AuxInt: int64) (Aux: Aux) (Uses: int32)
        (Args: "Value list")

record LocalSlot =
  N :: "GCNode option"
  Type :: Type
  Off :: int64

datatype Location = Register nat | Slot LocalSlot

datatype BlockKind =
    BlockInvalid | BlockPlain | BlockIf | BlockExit | BlockFirst
  | BlockMIPSEQ | BlockMIPSNE | BlockMIPSLTZ | BlockMIPSLEZ | BlockMIPSGTZ | BlockMIPSGEZ
  | BlockMIPSFPT | BlockMIPSFPF

text \<open>
  A block. \<^verbatim>\<open>Preds\<close> and \<^verbatim>\<open>Succs\<close> are pointers to blocks in Go; they are block IDs
  here. \<^verbatim>\<open>Controls\<close> holds the control values that are not nil.
\<close>

record Block =
  ID :: ID
  Kind :: BlockKind
  Values :: "Value list"
  Preds :: "ID list"
  Succs :: "ID list"
  Controls :: "Value list"

text \<open>
  A function. \<^verbatim>\<open>NumValues\<close> and \<^verbatim>\<open>NumBlocks\<close> are the counts of IDs handed out by the
  two ID allocators; \<^verbatim>\<open>Entry\<close> is the ID of the entry block; \<^verbatim>\<open>NamedValues\<close> is a Go map
  (a key that is absent yields the empty slice); \<^verbatim>\<open>autos\<close> counts the temporaries that the
  frontend has made for this function.
\<close>

record Func =
  Blocks :: "Block list"
  Entry :: ID
  RegAlloc :: "Location option list"
  Names :: "LocalSlot list"
  NamedValues :: "LocalSlot \<Rightarrow> Value list"
  NumValues :: nat
  NumBlocks :: nat
  autos :: nat

section \<open>The home map (stackalloc.go)\<close>

definition getHome :: "Func \<Rightarrow> ID \<Rightarrow> Location option" where
  "getHome f vid = (if vid \<ge> length (RegAlloc f) then None else RegAlloc f ! vid)"

text \<open>The loop of \<^verbatim>\<open>setHome\<close> that appends nil until the slice covers the ID.\<close>

function growRegAlloc :: "ID \<Rightarrow> Location option list \<Rightarrow> Location option list" where
  "growRegAlloc vid ra = (if vid \<ge> length ra then growRegAlloc vid (ra @ [None]) else ra)"
  by pat_completeness auto
termination
  by (relation "measure (\<lambda>(vid, ra). Suc vid - length ra)") auto

declare growRegAlloc.simps [simp del]

definition setHome :: "Func \<Rightarrow> Value \<Rightarrow> Location option \<Rightarrow> Func" where
  "setHome f v loc = f\<lparr>RegAlloc := (growRegAlloc (Value.ID v) (RegAlloc f))[Value.ID v := loc]\<rparr>"

text \<open>\<^verbatim>\<open>isStackPhi\<close> reads the home map of the function that owns the value.\<close>

definition isStackPhi :: "Func \<Rightarrow> Value \<Rightarrow> bool" where
  "isStackPhi f v =
     (if Op v \<noteq> OpPhi then False
      else if Value.Type v = TypeMem then False
      else if Value.ID v \<ge> length (RegAlloc f) then True
      else RegAlloc f ! Value.ID v = None)"

section \<open>Helpers of the rewrite rules\<close>

text \<open>Sequencing of computations that may panic.\<close>

definition bindP :: "panic + 'a \<Rightarrow> ('a \<Rightarrow> panic + 'b) \<Rightarrow> panic + 'b" where
  "bindP m k = (case m of Inl e \<Rightarrow> Inl e | Inr x \<Rightarrow> k x)"

text \<open>\<^verbatim>\<open>v.Args[i]\<close>: indexing a slice out of range panics.\<close>

definition arg :: "Value \<Rightarrow> nat \<Rightarrow> panic + Value" where
  "arg v i = (if i < length (Args v) then Inr (Args v ! i) else Inl IndexOutOfRange)"

text \<open>
  Modelled from the spec: the methods of \<^verbatim>\<open>value.go\<close> and \<^verbatim>\<open>block.go\<close> that the generated
  code calls are not among the sources. Rewriting a value mutates its Op, Type, Aux, AuxInt and
  Args in place and does not create a new value: \<^verbatim>\<open>reset\<close> sets the Op and clears the
  arguments and both immediates, \<^verbatim>\<open>AddArg\<close> appends one argument. The bookkeeping of use
  counts is left out (\<^verbatim>\<open>Uses\<close> is only read, by the conditions of rules).
\<close>

definition reset :: "Value \<Rightarrow> Op \<Rightarrow> Value" where
  "reset v op = Value (Value.ID v) op (Value.Type v) 0 AuxNil (Uses v) []"

definition AddArg :: "Value \<Rightarrow> Value \<Rightarrow> Value" where
  "AddArg v w =
     Value (Value.ID v) (Op v) (Value.Type v) (AuxInt v) (Aux v) (Uses v) (Args v @ [w])"

definition set_AuxInt :: "Value \<Rightarrow> int64 \<Rightarrow> Value" where
  "set_AuxInt v c = Value (Value.ID v) (Op v) (Value.Type v) c (Aux v) (Uses v) (Args v)"

definition set_Aux :: "Value \<Rightarrow> Aux \<Rightarrow> Value" where
  "set_Aux v a = Value (Value.ID v) (Op v) (Value.Type v) (AuxInt v) a (Uses v) (Args v)"

definition set_Type :: "Value \<Rightarrow> Type \<Rightarrow> Value" where
  "set_Type v t = Value (Value.ID v) (Op v) t (AuxInt v) (Aux v) (Uses v) (Args v)"

text \<open>
  Modelled from the spec: \<^verbatim>\<open>b.NewValue0\<close> creates a value with no arguments in the block;
  its ID is the next one of the function's ID allocator, which the matchers that create values
  take and return as the count \<^verbatim>\<open>nv\<close> of IDs handed out so far.
\<close>

definition NewValue0 :: "nat \<Rightarrow> Op \<Rightarrow> Type \<Rightarrow> Value" where
  "NewValue0 nv op t = Value nv op t 0 AuxNil 0 []"

text \<open>
  Modelled from the spec: a type carries a tuple indicator; \<^verbatim>\<open>FieldType(i)\<close> of a tuple
  is its i-th component, and the call panics on any other type.
\<close>

definition FieldType :: "Type \<Rightarrow> nat \<Rightarrow> panic + Type" where
  "FieldType t i =
     (case t of
        TypeTuple t0 t1 \<Rightarrow> (if i = 0 then Inr t0 else if i = 1 then Inr t1 else Inl PanicCall)
      | _ \<Rightarrow> Inl PanicCall)"

text \<open>Go's integer conversions between the widths that the rules use.\<close>

definition int32 :: "int64 \<Rightarrow> int32" where
  "int32 c = ucast c"

definition int64_of_int32 :: "int32 \<Rightarrow> int64" where
  "int64_of_int32 x = scast x"

definition int64_of_uint32 :: "int32 \<Rightarrow> int64" where
  "int64_of_uint32 x = ucast x"

text \<open>
  Go's \<^verbatim>\<open>/\<close> and \<^verbatim>\<open>%\<close> on \<^verbatim>\<open>int32\<close> and \<^verbatim>\<open>uint32\<close>: a zero divisor is a run-time panic;
  the signed quotient truncates towards zero and wraps for the most negative dividend.
\<close>

definition int32_div :: "int32 \<Rightarrow> int32 \<Rightarrow> panic + int32" where
  "int32_div a b =
     (if b = 0 then Inl IntegerDivideByZero else Inr (word_of_int (sint a sdiv sint b)))"

definition int32_mod :: "int32 \<Rightarrow> int32 \<Rightarrow> panic + int32" where
  "int32_mod a b =
     (if b = 0 then Inl IntegerDivideByZero else Inr (word_of_int (sint a smod sint b)))"

definition uint32_div :: "int32 \<Rightarrow> int32 \<Rightarrow> panic + int32" where
  "uint32_div a b = (if b = 0 then Inl IntegerDivideByZero else Inr (a div b))"

definition uint32_mod :: "int32 \<Rightarrow> int32 \<Rightarrow> panic + int32" where
  "uint32_mod a b = (if b = 0 then Inl IntegerDivideByZero else Inr (a mod b))"

text \<open>
  Modelled from the spec: \<^verbatim>\<open>is16Bit\<close> of \<^verbatim>\<open>rewrite.go\<close> is not among the sources; it
  says that a displacement fits the machine immediate field, which is 16 bits wide and signed.
\<close>

definition is16Bit :: "int64 \<Rightarrow> bool" where
  "is16Bit n = (n = scast (ucast n :: 16 word))"

text \<open>
  The outcome of one rule: a panic, no match (\<^verbatim>\<open>break\<close> or \<^verbatim>\<open>continue\<close>), or the rewritten
  value. The first rule in source order that matches wins.
\<close>

fun first_match :: "(panic + 'a option) list \<Rightarrow> panic + 'a option" where
  "first_match [] = Inr None"
| "first_match (r # rs) = (case r of Inr None \<Rightarrow> first_match rs | _ \<Rightarrow> r)"

text \<open>
  The loop \<^verbatim>\<open>for _i0 := 0; _i0 <= 1; _i0, v_0, v_1 = _i0+1, v_1, v_0\<close> of a commutative
  match: the body is tried on the arguments as they are and then swapped.
\<close>

definition commute :: "(Value \<Rightarrow> Value \<Rightarrow> panic + 'a option) \<Rightarrow> Value \<Rightarrow> Value
    \<Rightarrow> panic + 'a option" where
  "commute body v_0 v_1 = first_match [body v_0 v_1, body v_1 v_0]"

text \<open>The return of a matcher: true with the rewritten value, or false with the value as it was.\<close>

definition finish :: "Value \<Rightarrow> panic + Value option \<Rightarrow> panic + bool \<times> Value" where
  "finish v r =
     (case r of Inl e \<Rightarrow> Inl e | Inr None \<Rightarrow> Inr (False, v) | Inr (Some v') \<Rightarrow> Inr (True, v'))"

definition finishN :: "Value \<Rightarrow> nat \<Rightarrow> panic + (Value \<times> nat) option
    \<Rightarrow> panic + bool \<times> Value \<times> nat" where
  "finishN v nv r =
     (case r of Inl e \<Rightarrow> Inl e | Inr None \<Rightarrow> Inr (False, v, nv)
      | Inr (Some (v', nv')) \<Rightarrow> Inr (True, v', nv'))"

section \<open>Value matchers generated from MIPS.rules\<close>

definition rewriteValueMIPS_OpAdd32 :: "Value \<Rightarrow> panic + bool \<times> Value" where
  "rewriteValueMIPS_OpAdd32 v =
     bindP (arg v 1) (\<lambda>v_1. bindP (arg v 0) (\<lambda>v_0.
     \<comment> \<open>(Add32 x y) gives (ADD x y)\<close>
     (let x = v_0; y = v_1;
          v = reset v OpMIPSADD;
          v = AddArg v x;
          v = AddArg v y
      in Inr (True, v))))"

definition rewriteValueMIPS_OpConst32 :: "Value \<Rightarrow> panic + bool \<times> Value" where
  "rewriteValueMIPS_OpConst32 v =
     \<comment> \<open>(Const32 [val]) gives (MOVWconst [val])\<close>
     (let val = AuxInt v;
          v = reset v OpMIPSMOVWconst;
          v = set_AuxInt v val
      in Inr (True, v))"

definition rewriteValueMIPS_OpMIPSADD :: "Value \<Rightarrow> panic + bool \<times> Value" where
  "rewriteValueMIPS_OpMIPSADD v =
     bindP (arg v 1) (\<lambda>v_1. bindP (arg v 0) (\<lambda>v_0.
     finish v (first_match [
       \<comment> \<open>(ADD x (MOVWconst [c])) gives (ADDconst [c] x)\<close>
       commute (\<lambda>v_0 v_1.
         (let x = v_0 in
          if Op v_1 \<noteq> OpMIPSMOVWconst then Inr None
          else (let c = AuxInt v_1;
                    v = reset v OpMIPSADDconst;
                    v = set_AuxInt v c;
                    v = AddArg v x
                in Inr (Some v)))) v_0 v_1,
       \<comment> \<open>(ADD x (NEG y)) gives (SUB x y)\<close>
       commute (\<lambda>v_0 v_1.
         (let x = v_0 in
          if Op v_1 \<noteq> OpMIPSNEG then Inr None
          else bindP (arg v_1 0) (\<lambda>y.
               (let v = reset v OpMIPSSUB;
                    v = AddArg v x;
                    v = AddArg v y
                in Inr (Some v))))) v_0 v_1])))"

definition rewriteValueMIPS_OpMIPSADDconst :: "Value \<Rightarrow> panic + bool \<times> Value" where
  "rewriteValueMIPS_OpMIPSADDconst v =
     bindP (arg v 0) (\<lambda>v_0.
     finish v (first_match [
       \<comment> \<open>(ADDconst [off1] (MOVWaddr [off2] {sym} ptr)) gives (MOVWaddr [off1+off2] {sym} ptr)\<close>
       (let off1 = AuxInt v in
        if Op v_0 \<noteq> OpMIPSMOVWaddr then Inr None
        else (let off2 = AuxInt v_0; sym = Aux v_0 in
              bindP (arg v_0 0) (\<lambda>ptr.
              (let v = reset v OpMIPSMOVWaddr;
                   v = set_AuxInt v (off1 + off2);
                   v = set_Aux v sym;
                   v = AddArg v ptr
               in Inr (Some v))))),
       \<comment> \<open>(ADDconst [0] x) gives x\<close>
       (if AuxInt v \<noteq> 0 then Inr None
        else (let x = v_0;
                  v = reset v OpCopy;
                  v = set_Type v (Value.Type x);
                  v = AddArg v x
              in Inr (Some v))),
       \<comment> \<open>(ADDconst [c] (MOVWconst [d])) gives (MOVWconst [int64(int32(c+d))])\<close>
       (let c = AuxInt v in
        if Op v_0 \<noteq> OpMIPSMOVWconst then Inr None
        else (let d = AuxInt v_0;
                  v = reset v OpMIPSMOVWconst;
                  v = set_AuxInt v (int64_of_int32 (int32 (c + d)))
              in Inr (Some v))),
       \<comment> \<open>(ADDconst [c] (ADDconst [d] x)) gives (ADDconst [int64(int32(c+d))] x)\<close>
       (let c = AuxInt v in
        if Op v_0 \<noteq> OpMIPSADDconst then Inr None
        else (let d = AuxInt v_0 in
              bindP (arg v_0 0) (\<lambda>x.
              (let v = reset v OpMIPSADDconst;
                   v = set_AuxInt v (int64_of_int32 (int32 (c + d)));
                   v = AddArg v x
               in Inr (Some v))))),
       \<comment> \<open>(ADDconst [c] (SUBconst [d] x)) gives (ADDconst [int64(int32(c-d))] x)\<close>
       (let c = AuxInt v in
        if Op v_0 \<noteq> OpMIPSSUBconst then Inr None
        else (let d = AuxInt v_0 in
              bindP (arg v_0 0) (\<lambda>x.
              (let v = reset v OpMIPSADDconst;
                   v = set_AuxInt v (int64_of_int32 (int32 (c - d)));
                   v = AddArg v x
               in Inr (Some v)))))]))"

definition rewriteValueMIPS_OpMIPSSUB :: "Value \<Rightarrow> panic + bool \<times> Value" where
  "rewriteValueMIPS_OpMIPSSUB v =
     bindP (arg v 1) (\<lambda>v_1. bindP (arg v 0) (\<lambda>v_0.
     finish v (first_match [
       \<comment> \<open>(SUB x (MOVWconst [c])) gives (SUBconst [c] x)\<close>
       (let x = v_0 in
        if Op v_1 \<noteq> OpMIPSMOVWconst then Inr None
        else (let c = AuxInt v_1;
                  v = reset v OpMIPSSUBconst;
                  v = set_AuxInt v c;
                  v = AddArg v x
              in Inr (Some v))),
       \<comment> \<open>(SUB x x) gives (MOVWconst [0])\<close>
       (let x = v_0 in
        if Value.ID x \<noteq> Value.ID v_1 then Inr None
        else (let v = reset v OpMIPSMOVWconst;
                  v = set_AuxInt v 0
              in Inr (Some v))),
       \<comment> \<open>(SUB (MOVWconst [0]) x) gives (NEG x)\<close>
       (if Op v_0 \<noteq> OpMIPSMOVWconst \<or> AuxInt v_0 \<noteq> 0 then Inr None
        else (let x = v_1;
                  v = reset v OpMIPSNEG;
                  v = AddArg v x
              in Inr (Some v)))])))"

definition rewriteValueMIPS_OpMIPSSUBconst :: "Value \<Rightarrow> panic + bool \<times> Value" where
  "rewriteValueMIPS_OpMIPSSUBconst v =
     bindP (arg v 0) (\<lambda>v_0.
     finish v (first_match [
       \<comment> \<open>(SUBconst [0] x) gives x\<close>
       (if AuxInt v \<noteq> 0 then Inr None
        else (let x = v_0;
                  v = reset v OpCopy;
                  v = set_Type v (Value.Type x);
                  v = AddArg v x
              in Inr (Some v))),
       \<comment> \<open>(SUBconst [c] (MOVWconst [d])) gives (MOVWconst [int64(int32(d-c))])\<close>
       (let c = AuxInt v in
        if Op v_0 \<noteq> OpMIPSMOVWconst then Inr None
        else (let d = AuxInt v_0;
                  v = reset v OpMIPSMOVWconst;
                  v = set_AuxInt v (int64_of_int32 (int32 (d - c)))
              in Inr (Some v))),
       \<comment> \<open>(SUBconst [c] (SUBconst [d] x)) gives (ADDconst [int64(int32(-c-d))] x)\<close>
       (let c = AuxInt v in
        if Op v_0 \<noteq> OpMIPSSUBconst then Inr None
        else (let d = AuxInt v_0 in
              bindP (arg v_0 0) (\<lambda>x.
              (let v = reset v OpMIPSADDconst;
                   v = set_AuxInt v (int64_of_int32 (int32 (- c - d)));
                   v = AddArg v x
               in Inr (Some v))))),
       \<comment> \<open>(SUBconst [c] (ADDconst [d] x)) gives (ADDconst [int64(int32(-c+d))] x)\<close>
       (let c = AuxInt v in
        if Op v_0 \<noteq> OpMIPSADDconst then Inr None
        else (let d = AuxInt v_0 in
              bindP (arg v_0 0) (\<lambda>x.
              (let v = reset v OpMIPSADDconst;
                   v = set_AuxInt v (int64_of_int32 (int32 (- c + d)));
                   v = AddArg v x
               in Inr (Some v)))))]))"

text \<open>
  \<^verbatim>\<open>isPowerOfTwo\<close> and \<^verbatim>\<open>log2\<close> of \<^verbatim>\<open>rewrite.go\<close> are not among the sources; the matchers
  that call them take them as parameters.
\<close>

definition rewriteValueMIPS_OpMIPSMUL :: "(int64 \<Rightarrow> bool) \<Rightarrow> (int64 \<Rightarrow> int64) \<Rightarrow> Value
    \<Rightarrow> panic + bool \<times> Value" where
  "rewriteValueMIPS_OpMIPSMUL isPowerOfTwo log2 v =
     bindP (arg v 1) (\<lambda>v_1. bindP (arg v 0) (\<lambda>v_0.
     finish v (first_match [
       \<comment> \<open>(MUL (MOVWconst [0]) _ ) gives (MOVWconst [0])\<close>
       commute (\<lambda>v_0 v_1.
         if Op v_0 \<noteq> OpMIPSMOVWconst \<or> AuxInt v_0 \<noteq> 0 then Inr None
         else (let v = reset v OpMIPSMOVWconst;
                   v = set_AuxInt v 0
               in Inr (Some v))) v_0 v_1,
       \<comment> \<open>(MUL (MOVWconst [1]) x ) gives x\<close>
       commute (\<lambda>v_0 v_1.
         if Op v_0 \<noteq> OpMIPSMOVWconst \<or> AuxInt v_0 \<noteq> 1 then Inr None
         else (let x = v_1;
                   v = reset v OpCopy;
                   v = set_Type v (Value.Type x);
                   v = AddArg v x
               in Inr (Some v))) v_0 v_1,
       \<comment> \<open>(MUL (MOVWconst [-1]) x ) gives (NEG x)\<close>
       commute (\<lambda>v_0 v_1.
         if Op v_0 \<noteq> OpMIPSMOVWconst \<or> AuxInt v_0 \<noteq> - 1 then Inr None
         else (let x = v_1;
                   v = reset v OpMIPSNEG;
                   v = AddArg v x
               in Inr (Some v))) v_0 v_1,
       \<comment> \<open>(MUL (MOVWconst [c]) x ), isPowerOfTwo(int64(uint32(c))), gives
           (SLLconst [log2(int64(uint32(c)))] x)\<close>
       commute (\<lambda>v_0 v_1.
         if Op v_0 \<noteq> OpMIPSMOVWconst then Inr None
         else (let c = AuxInt v_0; x = v_1 in
               if \<not> isPowerOfTwo (int64_of_uint32 (int32 c)) then Inr None
               else (let v = reset v OpMIPSSLLconst;
                         v = set_AuxInt v (log2 (int64_of_uint32 (int32 c)));
                         v = AddArg v x
                     in Inr (Some v)))) v_0 v_1,
       \<comment> \<open>(MUL (MOVWconst [c]) (MOVWconst [d])) gives (MOVWconst [int64(int32(c)*int32(d))])\<close>
       commute (\<lambda>v_0 v_1.
         if Op v_0 \<noteq> OpMIPSMOVWconst then Inr None
         else (let c = AuxInt v_0 in
               if Op v_1 \<noteq> OpMIPSMOVWconst then Inr None
               else (let d = AuxInt v_1;
                         v = reset v OpMIPSMOVWconst;
                         v = set_AuxInt v (int64_of_int32 (int32 c * int32 d))
                     in Inr (Some v)))) v_0 v_1])))"

definition rewriteValueMIPS_OpMIPSNOR :: "Value \<Rightarrow> panic + bool \<times> Value" where
  "rewriteValueMIPS_OpMIPSNOR v =
     bindP (arg v 1) (\<lambda>v_1. bindP (arg v 0) (\<lambda>v_0.
     finish v (first_match [
       \<comment> \<open>(NOR x (MOVWconst [c])) gives (NORconst [c] x)\<close>
       commute (\<lambda>v_0 v_1.
         (let x = v_0 in
          if Op v_1 \<noteq> OpMIPSMOVWconst then Inr None
          else (let c = AuxInt v_1;
                    v = reset v OpMIPSNORconst;
                    v = set_AuxInt v c;
                    v = AddArg v x
                in Inr (Some v)))) v_0 v_1])))"

definition rewriteValueMIPS_OpMIPSXOR :: "Value \<Rightarrow> panic + bool \<times> Value" where
  "rewriteValueMIPS_OpMIPSXOR v =
     bindP (arg v 1) (\<lambda>v_1. bindP (arg v 0) (\<lambda>v_0.
     finish v (first_match [
       \<comment> \<open>(XOR x (MOVWconst [c])) gives (XORconst [c] x)\<close>
       commute (\<lambda>v_0 v_1.
         (let x = v_0 in
          if Op v_1 \<noteq> OpMIPSMOVWconst then Inr None
          else (let c = AuxInt v_1;
                    v = reset v OpMIPSXORconst;
                    v = set_AuxInt v c;
                    v = AddArg v x
                in Inr (Some v)))) v_0 v_1,
       \<comment> \<open>(XOR x x) gives (MOVWconst [0])\<close>
       (let x = v_0 in
        if Value.ID x \<noteq> Value.ID v_1 then Inr None
        else (let v = reset v OpMIPSMOVWconst;
                  v = set_AuxInt v 0
              in Inr (Some v)))])))"

definition rewriteValueMIPS_OpMIPSAND :: "nat \<Rightarrow> Value \<Rightarrow> panic + bool \<times> Value \<times> nat" where
  "rewriteValueMIPS_OpMIPSAND nv v =
     bindP (arg v 1) (\<lambda>v_1. bindP (arg v 0) (\<lambda>v_0.
     finishN v nv (first_match [
       \<comment> \<open>(AND x (MOVWconst [c])) gives (ANDconst [c] x)\<close>
       commute (\<lambda>v_0 v_1.
         (let x = v_0 in
          if Op v_1 \<noteq> OpMIPSMOVWconst then Inr None
          else (let c = AuxInt v_1;
                    v = reset v OpMIPSANDconst;
                    v = set_AuxInt v c;
                    v = AddArg v x
                in Inr (Some (v, nv))))) v_0 v_1,
       \<comment> \<open>(AND x x) gives x\<close>
       (let x = v_0 in
        if Value.ID x \<noteq> Value.ID v_1 then Inr None
        else (let v = reset v OpCopy;
                  v = set_Type v (Value.Type x);
                  v = AddArg v x
              in Inr (Some (v, nv)))),
       \<comment> \<open>(AND (SGTUconst [1] x) (SGTUconst [1] y)) gives (SGTUconst [1] (OR <x.Type> x y))\<close>
       commute (\<lambda>v_0 v_1.
         if Op v_0 \<noteq> OpMIPSSGTUconst \<or> AuxInt v_0 \<noteq> 1 then Inr None
         else bindP (arg v_0 0) (\<lambda>x.
              if Op v_1 \<noteq> OpMIPSSGTUconst \<or> AuxInt v_1 \<noteq> 1 then Inr None
              else bindP (arg v_1 0) (\<lambda>y.
                   (let v = reset v OpMIPSSGTUconst;
                        v = set_AuxInt v 1;
                        v0 = NewValue0 nv OpMIPSOR (Value.Type x);
                        v0 = AddArg v0 x;
                        v0 = AddArg v0 y;
                        v = AddArg v v0
                    in Inr (Some (v, Suc nv)))))) v_0 v_1])))"

definition rewriteValueMIPS_OpMIPSOR :: "nat \<Rightarrow> Value \<Rightarrow> panic + bool \<times> Value \<times> nat" where
  "rewriteValueMIPS_OpMIPSOR nv v =
     bindP (arg v 1) (\<lambda>v_1. bindP (arg v 0) (\<lambda>v_0.
     finishN v nv (first_match [
       \<comment> \<open>(OR x (MOVWconst [c])) gives (ORconst [c] x)\<close>
       commute (\<lambda>v_0 v_1.
         (let x = v_0 in
          if Op v_1 \<noteq> OpMIPSMOVWconst then Inr None
          else (let c = AuxInt v_1;
                    v = reset v OpMIPSORconst;
                    v = set_AuxInt v c;
                    v = AddArg v x
                in Inr (Some (v, nv))))) v_0 v_1,
       \<comment> \<open>(OR x x) gives x\<close>
       (let x = v_0 in
        if Value.ID x \<noteq> Value.ID v_1 then Inr None
        else (let v = reset v OpCopy;
                  v = set_Type v (Value.Type x);
                  v = AddArg v x
              in Inr (Some (v, nv)))),
       \<comment> \<open>(OR (SGTUzero x) (SGTUzero y)) gives (SGTUzero (OR <x.Type> x y))\<close>
       commute (\<lambda>v_0 v_1.
         if Op v_0 \<noteq> OpMIPSSGTUzero then Inr None
         else bindP (arg v_0 0) (\<lambda>x.
              if Op v_1 \<noteq> OpMIPSSGTUzero then Inr None
              else bindP (arg v_1 0) (\<lambda>y.
                   (let v = reset v OpMIPSSGTUzero;
                        v0 = NewValue0 nv OpMIPSOR (Value.Type x);
                        v0 = AddArg v0 x;
                        v0 = AddArg v0 y;
                        v = AddArg v v0
                    in Inr (Some (v, Suc nv)))))) v_0 v_1])))"

text \<open>
  \<^verbatim>\<open>canMergeSym\<close>, \<^verbatim>\<open>mergeSym\<close> and \<^verbatim>\<open>isSamePtr\<close> of \<^verbatim>\<open>rewrite.go\<close> are not among the
  sources; the matcher takes them as parameters.
\<close>

definition rewriteValueMIPS_OpMIPSMOVWload :: "(Aux \<Rightarrow> Aux \<Rightarrow> bool) \<Rightarrow> (Aux \<Rightarrow> Aux \<Rightarrow> panic + Aux)
    \<Rightarrow> (Value \<Rightarrow> Value \<Rightarrow> bool) \<Rightarrow> Value \<Rightarrow> panic + bool \<times> Value" where
  "rewriteValueMIPS_OpMIPSMOVWload canMergeSym mergeSym isSamePtr v =
     bindP (arg v 1) (\<lambda>v_1. bindP (arg v 0) (\<lambda>v_0.
     finish v (first_match [
       \<comment> \<open>(MOVWload [off1] {sym} x:(ADDconst [off2] ptr) mem),
           (is16Bit(off1+off2) || x.Uses == 1), gives (MOVWload [off1+off2] {sym} ptr mem)\<close>
       (let off1 = AuxInt v; sym = Aux v; x = v_0 in
        if Op x \<noteq> OpMIPSADDconst then Inr None
        else (let off2 = AuxInt x in
              bindP (arg x 0) (\<lambda>ptr.
              (let mem = v_1 in
               if \<not> (is16Bit (off1 + off2) \<or> Uses x = 1) then Inr None
               else (let v = reset v OpMIPSMOVWload;
                         v = set_AuxInt v (off1 + off2);
                         v = set_Aux v sym;
                         v = AddArg v ptr;
                         v = AddArg v mem
                     in Inr (Some v)))))),
       \<comment> \<open>(MOVWload [off1] {sym1} (MOVWaddr [off2] {sym2} ptr) mem), canMergeSym(sym1,sym2),
           gives (MOVWload [off1+off2] {mergeSym(sym1,sym2)} ptr mem)\<close>
       (let off1 = AuxInt v; sym1 = Aux v in
        if Op v_0 \<noteq> OpMIPSMOVWaddr then Inr None
        else (let off2 = AuxInt v_0; sym2 = Aux v_0 in
              bindP (arg v_0 0) (\<lambda>ptr.
              (let mem = v_1 in
               if \<not> canMergeSym sym1 sym2 then Inr None
               else (let v = reset v OpMIPSMOVWload;
                         v = set_AuxInt v (off1 + off2)
                     in bindP (mergeSym sym1 sym2) (\<lambda>sym.
                        (let v = set_Aux v sym;
                             v = AddArg v ptr;
                             v = AddArg v mem
                         in Inr (Some v)))))))),
       \<comment> \<open>(MOVWload [off] {sym} ptr (MOVWstore [off2] {sym2} ptr2 x _)),
           sym == sym2 && off == off2 && isSamePtr(ptr, ptr2), gives x\<close>
       (let off = AuxInt v; sym = Aux v; ptr = v_0 in
        if Op v_1 \<noteq> OpMIPSMOVWstore then Inr None
        else (let off2 = AuxInt v_1; sym2 = Aux v_1 in
              bindP (arg v_1 2) (\<lambda>_.
              bindP (arg v_1 0) (\<lambda>ptr2.
              bindP (arg v_1 1) (\<lambda>x.
              if \<not> (sym = sym2 \<and> off = off2 \<and> isSamePtr ptr ptr2) then Inr None
              else (let v = reset v OpCopy;
                        v = set_Type v (Value.Type x);
                        v = AddArg v x
                    in Inr (Some v)))))))])))"

text \<open>
  In the folds of \<^verbatim>\<open>DIV\<close> and \<^verbatim>\<open>DIVU\<close> the quotient or remainder is computed by the
  compiler itself, by Go's \<^verbatim>\<open>/\<close> and \<^verbatim>\<open>%\<close>, after \<^verbatim>\<open>v.reset\<close>.
\<close>

definition rewriteValueMIPS_OpSelect0 :: "(int64 \<Rightarrow> bool) \<Rightarrow> (int64 \<Rightarrow> int64) \<Rightarrow> nat \<Rightarrow> Value
    \<Rightarrow> panic + bool \<times> Value \<times> nat" where
  "rewriteValueMIPS_OpSelect0 isPowerOfTwo log2 nv v =
     bindP (arg v 0) (\<lambda>v_0.
     finishN v nv (first_match [
       \<comment> \<open>(Select0 (Add32carry <t> x y)) gives (ADD <t.FieldType(0)> x y)\<close>
       (if Op v_0 \<noteq> OpAdd32carry then Inr None
        else (let t = Value.Type v_0 in
              bindP (arg v_0 1) (\<lambda>y.
              bindP (arg v_0 0) (\<lambda>x.
              (let v = reset v OpMIPSADD in
               bindP (FieldType t 0) (\<lambda>t0.
               (let v = set_Type v t0;
                    v = AddArg v x;
                    v = AddArg v y
                in Inr (Some (v, nv))))))))),
       \<comment> \<open>(Select0 (Sub32carry <t> x y)) gives (SUB <t.FieldType(0)> x y)\<close>
       (if Op v_0 \<noteq> OpSub32carry then Inr None
        else (let t = Value.Type v_0 in
              bindP (arg v_0 1) (\<lambda>y.
              bindP (arg v_0 0) (\<lambda>x.
              (let v = reset v OpMIPSSUB in
               bindP (FieldType t 0) (\<lambda>t0.
               (let v = set_Type v t0;
                    v = AddArg v x;
                    v = AddArg v y
                in Inr (Some (v, nv))))))))),
       \<comment> \<open>(Select0 (MULTU (MOVWconst [0]) _ )) gives (MOVWconst [0])\<close>
       (if Op v_0 \<noteq> OpMIPSMULTU then Inr None
        else bindP (arg v_0 1) (\<lambda>_.
             bindP (arg v_0 0) (\<lambda>v_0_0.
             bindP (arg v_0 1) (\<lambda>v_0_1.
             commute (\<lambda>v_0_0 v_0_1.
               if Op v_0_0 \<noteq> OpMIPSMOVWconst \<or> AuxInt v_0_0 \<noteq> 0 then Inr None
               else (let v = reset v OpMIPSMOVWconst;
                         v = set_AuxInt v 0
                     in Inr (Some (v, nv)))) v_0_0 v_0_1)))),
       \<comment> \<open>(Select0 (MULTU (MOVWconst [1]) _ )) gives (MOVWconst [0])\<close>
       (if Op v_0 \<noteq> OpMIPSMULTU then Inr None
        else bindP (arg v_0 1) (\<lambda>_.
             bindP (arg v_0 0) (\<lambda>v_0_0.
             bindP (arg v_0 1) (\<lambda>v_0_1.
             commute (\<lambda>v_0_0 v_0_1.
               if Op v_0_0 \<noteq> OpMIPSMOVWconst \<or> AuxInt v_0_0 \<noteq> 1 then Inr None
               else (let v = reset v OpMIPSMOVWconst;
                         v = set_AuxInt v 0
                     in Inr (Some (v, nv)))) v_0_0 v_0_1)))),
       \<comment> \<open>(Select0 (MULTU (MOVWconst [-1]) x )) gives (CMOVZ (ADDconst <x.Type> [-1] x) (MOVWconst [0]) x)\<close>
       (if Op v_0 \<noteq> OpMIPSMULTU then Inr None
        else bindP (arg v_0 1) (\<lambda>_.
             bindP (arg v_0 0) (\<lambda>v_0_0.
             bindP (arg v_0 1) (\<lambda>v_0_1.
             commute (\<lambda>v_0_0 v_0_1.
               if Op v_0_0 \<noteq> OpMIPSMOVWconst \<or> AuxInt v_0_0 \<noteq> - 1 then Inr None
               else (let x = v_0_1;
                         v = reset v OpMIPSCMOVZ;
                         v0 = NewValue0 nv OpMIPSADDconst (Value.Type x);
                         v0 = set_AuxInt v0 (- 1);
                         v0 = AddArg v0 x;
                         v = AddArg v v0;
                         v1 = NewValue0 (Suc nv) OpMIPSMOVWconst TypeUInt32;
                         v1 = set_AuxInt v1 0;
                         v = AddArg v v1;
                         v = AddArg v x
                     in Inr (Some (v, Suc (Suc nv))))) v_0_0 v_0_1)))),
       \<comment> \<open>(Select0 (MULTU (MOVWconst [c]) x )), isPowerOfTwo(int64(uint32(c))), gives (SRLconst [32-log2(int64(uint32(c)))] x)\<close>
       (if Op v_0 \<noteq> OpMIPSMULTU then Inr None
        else bindP (arg v_0 1) (\<lambda>_.
             bindP (arg v_0 0) (\<lambda>v_0_0.
             bindP (arg v_0 1) (\<lambda>v_0_1.
             commute (\<lambda>v_0_0 v_0_1.
               if Op v_0_0 \<noteq> OpMIPSMOVWconst then Inr None
               else (let c = AuxInt v_0_0; x = v_0_1 in
                     if \<not> isPowerOfTwo (int64_of_uint32 (int32 c)) then Inr None
                     else (let v = reset v OpMIPSSRLconst;
                               v = set_AuxInt v (32 - log2 (int64_of_uint32 (int32 c)));
                               v = AddArg v x
                           in Inr (Some (v, nv))))) v_0_0 v_0_1)))),
       \<comment> \<open>(Select0 (MULTU (MOVWconst [c]) (MOVWconst [d]))) gives (MOVWconst [(c*d)>>32])\<close>
       (if Op v_0 \<noteq> OpMIPSMULTU then Inr None
        else bindP (arg v_0 1) (\<lambda>_.
             bindP (arg v_0 0) (\<lambda>v_0_0.
             bindP (arg v_0 1) (\<lambda>v_0_1.
             commute (\<lambda>v_0_0 v_0_1.
               if Op v_0_0 \<noteq> OpMIPSMOVWconst then Inr None
               else (let c = AuxInt v_0_0 in
                     if Op v_0_1 \<noteq> OpMIPSMOVWconst then Inr None
                     else (let d = AuxInt v_0_1;
                               v = reset v OpMIPSMOVWconst;
                               v = set_AuxInt v (signed_drop_bit 32 (c * d))
                           in Inr (Some (v, nv))))) v_0_0 v_0_1)))),
       \<comment> \<open>(Select0 (DIV (MOVWconst [c]) (MOVWconst [d]))) gives (MOVWconst [int64(int32(c)%int32(d))])\<close>
       (if Op v_0 \<noteq> OpMIPSDIV then Inr None
        else bindP (arg v_0 1) (\<lambda>_.
             bindP (arg v_0 0) (\<lambda>v_0_0.
             if Op v_0_0 \<noteq> OpMIPSMOVWconst then Inr None
             else (let c = AuxInt v_0_0 in
                   bindP (arg v_0 1) (\<lambda>v_0_1.
                   if Op v_0_1 \<noteq> OpMIPSMOVWconst then Inr None
                   else (let d = AuxInt v_0_1;
                             v = reset v OpMIPSMOVWconst
                         in bindP (int32_mod (int32 c) (int32 d)) (\<lambda>r.
                            (let v = set_AuxInt v (int64_of_int32 r)
                             in Inr (Some (v, nv)))))))))),
       \<comment> \<open>(Select0 (DIVU (MOVWconst [c]) (MOVWconst [d]))) gives (MOVWconst [int64(int32(uint32(c)%uint32(d)))])\<close>
       (if Op v_0 \<noteq> OpMIPSDIVU then Inr None
        else bindP (arg v_0 1) (\<lambda>_.
             bindP (arg v_0 0) (\<lambda>v_0_0.
             if Op v_0_0 \<noteq> OpMIPSMOVWconst then Inr None
             else (let c = AuxInt v_0_0 in
                   bindP (arg v_0 1) (\<lambda>v_0_1.
                   if Op v_0_1 \<noteq> OpMIPSMOVWconst then Inr None
                   else (let d = AuxInt v_0_1;
                             v = reset v OpMIPSMOVWconst
                         in bindP (uint32_mod (int32 c) (int32 d)) (\<lambda>r.
                            (let v = set_AuxInt v (int64_of_int32 r)
                             in Inr (Some (v, nv))))))))))]))"

definition rewriteValueMIPS_OpSelect1 :: "(int64 \<Rightarrow> bool) \<Rightarrow> (int64 \<Rightarrow> int64) \<Rightarrow> nat \<Rightarrow> Value
    \<Rightarrow> panic + bool \<times> Value \<times> nat" where
  "rewriteValueMIPS_OpSelect1 isPowerOfTwo log2 nv v =
     bindP (arg v 0) (\<lambda>v_0.
     finishN v nv (first_match [
       \<comment> \<open>(Select1 (Add32carry <t> x y)) gives (SGTU <typ.Bool> x (ADD <t.FieldType(0)> x y))\<close>
       (if Op v_0 \<noteq> OpAdd32carry then Inr None
        else (let t = Value.Type v_0 in
              bindP (arg v_0 1) (\<lambda>y.
              bindP (arg v_0 0) (\<lambda>x.
              (let v = reset v OpMIPSSGTU;
                   v = set_Type v TypeBool;
                   v = AddArg v x
               in bindP (FieldType t 0) (\<lambda>t0.
                  (let v0 = NewValue0 nv OpMIPSADD t0;
                       v0 = AddArg v0 x;
                       v0 = AddArg v0 y;
                       v = AddArg v v0
                   in Inr (Some (v, Suc nv))))))))),
       \<comment> \<open>(Select1 (Sub32carry <t> x y)) gives (SGTU <typ.Bool> (SUB <t.FieldType(0)> x y) x)\<close>
       (if Op v_0 \<noteq> OpSub32carry then Inr None
        else (let t = Value.Type v_0 in
              bindP (arg v_0 1) (\<lambda>y.
              bindP (arg v_0 0) (\<lambda>x.
              (let v = reset v OpMIPSSGTU;
                   v = set_Type v TypeBool
               in bindP (FieldType t 0) (\<lambda>t0.
                  (let v0 = NewValue0 nv OpMIPSSUB t0;
                       v0 = AddArg v0 x;
                       v0 = AddArg v0 y;
                       v = AddArg v v0;
                       v = AddArg v x
                   in Inr (Some (v, Suc nv))))))))),
       \<comment> \<open>(Select1 (MULTU (MOVWconst [0]) _ )) gives (MOVWconst [0])\<close>
       (if Op v_0 \<noteq> OpMIPSMULTU then Inr None
        else bindP (arg v_0 1) (\<lambda>_.
             bindP (arg v_0 0) (\<lambda>v_0_0.
             bindP (arg v_0 1) (\<lambda>v_0_1.
             commute (\<lambda>v_0_0 v_0_1.
               if Op v_0_0 \<noteq> OpMIPSMOVWconst \<or> AuxInt v_0_0 \<noteq> 0 then Inr None
               else (let v = reset v OpMIPSMOVWconst;
                         v = set_AuxInt v 0
                     in Inr (Some (v, nv)))) v_0_0 v_0_1)))),
       \<comment> \<open>(Select1 (MULTU (MOVWconst [1]) x )) gives x\<close>
       (if Op v_0 \<noteq> OpMIPSMULTU then Inr None
        else bindP (arg v_0 1) (\<lambda>_.
             bindP (arg v_0 0) (\<lambda>v_0_0.
             bindP (arg v_0 1) (\<lambda>v_0_1.
             commute (\<lambda>v_0_0 v_0_1.
               if Op v_0_0 \<noteq> OpMIPSMOVWconst \<or> AuxInt v_0_0 \<noteq> 1 then Inr None
               else (let x = v_0_1;
                         v = reset v OpCopy;
                         v = set_Type v (Value.Type x);
                         v = AddArg v x
                     in Inr (Some (v, nv)))) v_0_0 v_0_1)))),
       \<comment> \<open>(Select1 (MULTU (MOVWconst [-1]) x )) gives (NEG <x.Type> x)\<close>
       (if Op v_0 \<noteq> OpMIPSMULTU then Inr None
        else bindP (arg v_0 1) (\<lambda>_.
             bindP (arg v_0 0) (\<lambda>v_0_0.
             bindP (arg v_0 1) (\<lambda>v_0_1.
             commute (\<lambda>v_0_0 v_0_1.
               if Op v_0_0 \<noteq> OpMIPSMOVWconst \<or> AuxInt v_0_0 \<noteq> - 1 then Inr None
               else (let x = v_0_1;
                         v = reset v OpMIPSNEG;
                         v = set_Type v (Value.Type x);
                         v = AddArg v x
                     in Inr (Some (v, nv)))) v_0_0 v_0_1)))),
       \<comment> \<open>(Select1 (MULTU (MOVWconst [c]) x )), isPowerOfTwo(int64(uint32(c))), gives (SLLconst [log2(int64(uint32(c)))] x)\<close>
       (if Op v_0 \<noteq> OpMIPSMULTU then Inr None
        else bindP (arg v_0 1) (\<lambda>_.
             bindP (arg v_0 0) (\<lambda>v_0_0.
             bindP (arg v_0 1) (\<lambda>v_0_1.
             commute (\<lambda>v_0_0 v_0_1.
               if Op v_0_0 \<noteq> OpMIPSMOVWconst then Inr None
               else (let c = AuxInt v_0_0; x = v_0_1 in
                     if \<not> isPowerOfTwo (int64_of_uint32 (int32 c)) then Inr None
                     else (let v = reset v OpMIPSSLLconst;
                               v = set_AuxInt v (log2 (int64_of_uint32 (int32 c)));
                               v = AddArg v x
                           in Inr (Some (v, nv))))) v_0_0 v_0_1)))),
       \<comment> \<open>(Select1 (MULTU (MOVWconst [c]) (MOVWconst [d]))) gives (MOVWconst [int64(int32(uint32(c)*uint32(d)))])\<close>
       (if Op v_0 \<noteq> OpMIPSMULTU then Inr None
        else bindP (arg v_0 1) (\<lambda>_.
             bindP (arg v_0 0) (\<lambda>v_0_0.
             bindP (arg v_0 1) (\<lambda>v_0_1.
             commute (\<lambda>v_0_0 v_0_1.
               if Op v_0_0 \<noteq> OpMIPSMOVWconst then Inr None
               else (let c = AuxInt v_0_0 in
                     if Op v_0_1 \<noteq> OpMIPSMOVWconst then Inr None
                     else (let d = AuxInt v_0_1;
                               v = reset v OpMIPSMOVWconst;
                               v = set_AuxInt v (int64_of_int32 (int32 c * int32 d))
                           in Inr (Some (v, nv))))) v_0_0 v_0_1)))),
       \<comment> \<open>(Select1 (DIV (MOVWconst [c]) (MOVWconst [d]))) gives (MOVWconst [int64(int32(c)/int32(d))])\<close>
       (if Op v_0 \<noteq> OpMIPSDIV then Inr None
        else bindP (arg v_0 1) (\<lambda>_.
             bindP (arg v_0 0) (\<lambda>v_0_0.
             if Op v_0_0 \<noteq> OpMIPSMOVWconst then Inr None
             else (let c = AuxInt v_0_0 in
                   bindP (arg v_0 1) (\<lambda>v_0_1.
                   if Op v_0_1 \<noteq> OpMIPSMOVWconst then Inr None
                   else (let d = AuxInt v_0_1;
                             v = reset v OpMIPSMOVWconst
                         in bindP (int32_div (int32 c) (int32 d)) (\<lambda>r.
                            (let v = set_AuxInt v (int64_of_int32 r)
                             in Inr (Some (v, nv)))))))))),
       \<comment> \<open>(Select1 (DIVU (MOVWconst [c]) (MOVWconst [d]))) gives (MOVWconst [int64(int32(uint32(c)/uint32(d)))])\<close>
       (if Op v_0 \<noteq> OpMIPSDIVU then Inr None
        else bindP (arg v_0 1) (\<lambda>_.
             bindP (arg v_0 0) (\<lambda>v_0_0.
             if Op v_0_0 \<noteq> OpMIPSMOVWconst then Inr None
             else (let c = AuxInt v_0_0 in
                   bindP (arg v_0 1) (\<lambda>v_0_1.
                   if Op v_0_1 \<noteq> OpMIPSMOVWconst then Inr None
                   else (let d = AuxInt v_0_1;
                             v = reset v OpMIPSMOVWconst
                         in bindP (uint32_div (int32 c) (int32 d)) (\<lambda>r.
                            (let v = set_AuxInt v (int64_of_int32 r)
                             in Inr (Some (v, nv))))))))))]))"

text \<open>
  The dispatcher. Its \<^verbatim>\<open>switch\<close> has one arm for each operation that has a matcher. The arms
  of the matchers embedded above are written out; operations without an arm fall through to
  \<^verbatim>\<open>return false\<close>; the arms of the matchers that are not embedded here are the parameter
  \<^verbatim>\<open>others\<close>.
\<close>

definition lift :: "nat \<Rightarrow> panic + bool \<times> Value \<Rightarrow> panic + bool \<times> Value \<times> nat" where
  "lift nv r = (case r of Inl e \<Rightarrow> Inl e | Inr (fired, v) \<Rightarrow> Inr (fired, v, nv))"

record rewrite_go =
  isPowerOfTwo :: "int64 \<Rightarrow> bool"
  log2 :: "int64 \<Rightarrow> int64"
  canMergeSym :: "Aux \<Rightarrow> Aux \<Rightarrow> bool"
  mergeSym :: "Aux \<Rightarrow> Aux \<Rightarrow> panic + Aux"
  isSamePtr :: "Value \<Rightarrow> Value \<Rightarrow> bool"
  others :: "nat \<Rightarrow> Value \<Rightarrow> panic + bool \<times> Value \<times> nat"

definition rewriteValueMIPS :: "rewrite_go \<Rightarrow> nat \<Rightarrow> Value \<Rightarrow> panic + bool \<times> Value \<times> nat" where
  "rewriteValueMIPS h nv v =
     (case Op v of
        OpAdd32 \<Rightarrow> lift nv (rewriteValueMIPS_OpAdd32 v)
      | OpConst32 \<Rightarrow> lift nv (rewriteValueMIPS_OpConst32 v)
      | OpMIPSADD \<Rightarrow> lift nv (rewriteValueMIPS_OpMIPSADD v)
      | OpMIPSADDconst \<Rightarrow> lift nv (rewriteValueMIPS_OpMIPSADDconst v)
      | OpMIPSAND \<Rightarrow> rewriteValueMIPS_OpMIPSAND nv v
      | OpMIPSMOVWload \<Rightarrow>
          lift nv (rewriteValueMIPS_OpMIPSMOVWload (canMergeSym h) (mergeSym h) (isSamePtr h) v)
      | OpMIPSMUL \<Rightarrow> lift nv (rewriteValueMIPS_OpMIPSMUL (isPowerOfTwo h) (log2 h) v)
      | OpMIPSNOR \<Rightarrow> lift nv (rewriteValueMIPS_OpMIPSNOR v)
      | OpMIPSOR \<Rightarrow> rewriteValueMIPS_OpMIPSOR nv v
      | OpMIPSSUB \<Rightarrow> lift nv (rewriteValueMIPS_OpMIPSSUB v)
      | OpMIPSSUBconst \<Rightarrow> lift nv (rewriteValueMIPS_OpMIPSSUBconst v)
      | OpMIPSXOR \<Rightarrow> lift nv (rewriteValueMIPS_OpMIPSXOR v)
      | OpSelect0 \<Rightarrow> rewriteValueMIPS_OpSelect0 (isPowerOfTwo h) (log2 h) nv v
      | OpSelect1 \<Rightarrow> rewriteValueMIPS_OpSelect1 (isPowerOfTwo h) (log2 h) nv v
      | OpInvalid \<Rightarrow> Inr (False, v, nv)
      | OpCopy \<Rightarrow> Inr (False, v, nv)
      | OpPhi \<Rightarrow> Inr (False, v, nv)
      | OpArg \<Rightarrow> Inr (False, v, nv)
      | OpStoreReg \<Rightarrow> Inr (False, v, nv)
      | OpLoadReg \<Rightarrow> Inr (False, v, nv)
      | OpInitMem \<Rightarrow> Inr (False, v, nv)
      | OpAdd32carry \<Rightarrow> Inr (False, v, nv)
      | OpSub32carry \<Rightarrow> Inr (False, v, nv)
      | OpMIPSMULTU \<Rightarrow> Inr (False, v, nv)
      | OpMIPSDIV \<Rightarrow> Inr (False, v, nv)
      | OpMIPSDIVU \<Rightarrow> Inr (False, v, nv)
      | OpMIPSMOVWconst \<Rightarrow> Inr (False, v, nv)
      | OpMIPSMOVWaddr \<Rightarrow> Inr (False, v, nv)
      | OpMIPSFPFlagTrue \<Rightarrow> Inr (False, v, nv)
      | OpMIPSFPFlagFalse \<Rightarrow> Inr (False, v, nv)
      | OpMIPSCMPEQF \<Rightarrow> Inr (False, v, nv)
      | _ \<Rightarrow> others h nv v)"

text \<open>
  An instance of the helpers of \<^verbatim>\<open>rewrite.go\<close> for the worked examples: a power of two is
  a positive integer with one bit set, \<^verbatim>\<open>log2\<close> is the position of the highest bit, symbols
  merge when one of them is nil, and two pointers are the same when they are the same value.
  No operation outside the embedded matchers is rewritten.
\<close>

fun bitLen :: "nat \<Rightarrow> nat" where
  "bitLen n = (if n = 0 then 0 else Suc (bitLen (n div 2)))"

declare bitLen.simps [simp del]

definition example_helpers :: rewrite_go where
  "example_helpers =
     \<lparr>isPowerOfTwo = (\<lambda>n. 0 < sint n \<and> n AND (n - 1) = 0),
      log2 = (\<lambda>n. word_of_nat (bitLen (unat n)) - 1),
      canMergeSym = (\<lambda>x y. x = AuxNil \<or> y = AuxNil),
      mergeSym = (\<lambda>x y. if x = AuxNil then Inr y else if y = AuxNil then Inr x else Inl PanicCall),
      isSamePtr = (\<lambda>p q. Value.ID p = Value.ID q),
      others = (\<lambda>nv v. Inr (False, v, nv))\<rparr>"

section \<open>The block rewriter generated from MIPS.rules\<close>

text \<open>
  Modelled from the spec: the methods of \<^verbatim>\<open>block.go\<close> are not among the sources. A rule
  rewrites the kind of a block and replaces its control values (\<^verbatim>\<open>Reset\<close> sets the kind and
  clears the controls, \<^verbatim>\<open>AddControl\<close> adds one) and may swap the two successors;
  \<^verbatim>\<open>swapSuccessors\<close> is fatal on a block that does not have exactly two successors.
  \<^verbatim>\<open>b.Controls[0]\<close> of a block without a control value is nil, and reading a field of it or
  adding it as a control is a nil dereference.
\<close>

definition control0 :: "Block \<Rightarrow> panic + Value" where
  "control0 b = (case Controls b of [] \<Rightarrow> Inl NilDereference | c # _ \<Rightarrow> Inr c)"

definition Reset :: "Block \<Rightarrow> BlockKind \<Rightarrow> Block" where
  "Reset b kind = b\<lparr>Kind := kind, Controls := []\<rparr>"

definition AddControl :: "Block \<Rightarrow> Value \<Rightarrow> Block" where
  "AddControl b v = b\<lparr>Controls := Controls b @ [v]\<rparr>"

definition swapSuccessors :: "Block \<Rightarrow> panic + Block" where
  "swapSuccessors b =
     (case Succs b of
        [s0, s1] \<Rightarrow> Inr (b\<lparr>Succs := [s1, s0]\<rparr>)
      | _ \<Rightarrow> Inl PanicCall)"

definition finishB :: "Block \<Rightarrow> panic + Block option \<Rightarrow> panic + bool \<times> Block" where
  "finishB b r =
     (case r of Inl e \<Rightarrow> Inl e | Inr None \<Rightarrow> Inr (False, b) | Inr (Some b') \<Rightarrow> Inr (True, b'))"

definition rewriteBlockMIPS :: "Block \<Rightarrow> panic + bool \<times> Block" where
  "rewriteBlockMIPS b =
     (case Kind b of
      BlockMIPSEQ \<Rightarrow>
        bindP (control0 b) (\<lambda>c0.
        finishB b (first_match [
          \<comment> \<open>(EQ (FPFlagTrue cmp) yes no) gives (FPF cmp yes no)\<close>
          (if Op c0 \<noteq> OpMIPSFPFlagTrue then Inr None
           else (let v_0 = c0 in
                 bindP (arg v_0 0) (\<lambda>cmp.
                 (let b = Reset b BlockMIPSFPF;
                      b = AddControl b cmp
                  in Inr (Some b))))),
          \<comment> \<open>(EQ (FPFlagFalse cmp) yes no) gives (FPT cmp yes no)\<close>
          (if Op c0 \<noteq> OpMIPSFPFlagFalse then Inr None
           else (let v_0 = c0 in
                 bindP (arg v_0 0) (\<lambda>cmp.
                 (let b = Reset b BlockMIPSFPT;
                      b = AddControl b cmp
                  in Inr (Some b))))),
          \<comment> \<open>(EQ (XORconst [1] cmp:(SGT _ _)) yes no) gives (NE cmp yes no)\<close>
          (if Op c0 \<noteq> OpMIPSXORconst then Inr None
           else (let v_0 = c0 in
                 if AuxInt v_0 \<noteq> 1 then Inr None
                 else bindP (arg v_0 0) (\<lambda>cmp.
                      if Op cmp \<noteq> OpMIPSSGT then Inr None
                      else bindP (arg cmp 1) (\<lambda>_.
                       (let b = Reset b BlockMIPSNE;
                                b = AddControl b cmp
                            in Inr (Some b)))))),
          \<comment> \<open>(EQ (XORconst [1] cmp:(SGTU _ _)) yes no) gives (NE cmp yes no)\<close>
          (if Op c0 \<noteq> OpMIPSXORconst then Inr None
           else (let v_0 = c0 in
                 if AuxInt v_0 \<noteq> 1 then Inr None
                 else bindP (arg v_0 0) (\<lambda>cmp.
                      if Op cmp \<noteq> OpMIPSSGTU then Inr None
                      else bindP (arg cmp 1) (\<lambda>_.
                       (let b = Reset b BlockMIPSNE;
                                b = AddControl b cmp
                            in Inr (Some b)))))),
          \<comment> \<open>(EQ (XORconst [1] cmp:(SGTconst _)) yes no) gives (NE cmp yes no)\<close>
          (if Op c0 \<noteq> OpMIPSXORconst then Inr None
           else (let v_0 = c0 in
                 if AuxInt v_0 \<noteq> 1 then Inr None
                 else bindP (arg v_0 0) (\<lambda>cmp.
                      if Op cmp \<noteq> OpMIPSSGTconst then Inr None
                      else (let b = Reset b BlockMIPSNE;
                                b = AddControl b cmp
                            in Inr (Some b))))),
          \<comment> \<open>(EQ (XORconst [1] cmp:(SGTUconst _)) yes no) gives (NE cmp yes no)\<close>
          (if Op c0 \<noteq> OpMIPSXORconst then Inr None
           else (let v_0 = c0 in
                 if AuxInt v_0 \<noteq> 1 then Inr None
                 else bindP (arg v_0 0) (\<lambda>cmp.
                      if Op cmp \<noteq> OpMIPSSGTUconst then Inr None
                      else (let b = Reset b BlockMIPSNE;
                                b = AddControl b cmp
                            in Inr (Some b))))),
          \<comment> \<open>(EQ (XORconst [1] cmp:(SGTzero _)) yes no) gives (NE cmp yes no)\<close>
          (if Op c0 \<noteq> OpMIPSXORconst then Inr None
           else (let v_0 = c0 in
                 if AuxInt v_0 \<noteq> 1 then Inr None
                 else bindP (arg v_0 0) (\<lambda>cmp.
                      if Op cmp \<noteq> OpMIPSSGTzero then Inr None
                      else (let b = Reset b BlockMIPSNE;
                                b = AddControl b cmp
                            in Inr (Some b))))),
          \<comment> \<open>(EQ (XORconst [1] cmp:(SGTUzero _)) yes no) gives (NE cmp yes no)\<close>
          (if Op c0 \<noteq> OpMIPSXORconst then Inr None
           else (let v_0 = c0 in
                 if AuxInt v_0 \<noteq> 1 then Inr None
                 else bindP (arg v_0 0) (\<lambda>cmp.
                      if Op cmp \<noteq> OpMIPSSGTUzero then Inr None
                      else (let b = Reset b BlockMIPSNE;
                                b = AddControl b cmp
                            in Inr (Some b))))),
          \<comment> \<open>(EQ (SGTUconst [1] x) yes no) gives (NE x yes no)\<close>
          (if Op c0 \<noteq> OpMIPSSGTUconst then Inr None
           else (let v_0 = c0 in
                 if AuxInt v_0 \<noteq> 1 then Inr None
                 else bindP (arg v_0 0) (\<lambda>x.
                 (let b = Reset b BlockMIPSNE;
                      b = AddControl b x
                  in Inr (Some b))))),
          \<comment> \<open>(EQ (SGTUzero x) yes no) gives (EQ x yes no)\<close>
          (if Op c0 \<noteq> OpMIPSSGTUzero then Inr None
           else (let v_0 = c0 in
                 bindP (arg v_0 0) (\<lambda>x.
                 (let b = Reset b BlockMIPSEQ;
                      b = AddControl b x
                  in Inr (Some b))))),
          \<comment> \<open>(EQ (SGTconst [0] x) yes no) gives (GEZ x yes no)\<close>
          (if Op c0 \<noteq> OpMIPSSGTconst then Inr None
           else (let v_0 = c0 in
                 if AuxInt v_0 \<noteq> 0 then Inr None
                 else bindP (arg v_0 0) (\<lambda>x.
                 (let b = Reset b BlockMIPSGEZ;
                      b = AddControl b x
                  in Inr (Some b))))),
          \<comment> \<open>(EQ (SGTzero x) yes no) gives (LEZ x yes no)\<close>
          (if Op c0 \<noteq> OpMIPSSGTzero then Inr None
           else (let v_0 = c0 in
                 bindP (arg v_0 0) (\<lambda>x.
                 (let b = Reset b BlockMIPSLEZ;
                      b = AddControl b x
                  in Inr (Some b))))),
          \<comment> \<open>(EQ (MOVWconst [0]) yes no) gives (First yes no)\<close>
          (if Op c0 \<noteq> OpMIPSMOVWconst then Inr None
           else (let v_0 = c0 in
                 if AuxInt v_0 \<noteq> 0 then Inr None
                 else (let b = Reset b BlockFirst in Inr (Some b)))),
          \<comment> \<open>(EQ (MOVWconst [c]) yes no), c != 0, gives (First no yes)\<close>
          (if Op c0 \<noteq> OpMIPSMOVWconst then Inr None
           else (let v_0 = c0; c = AuxInt v_0 in
                 if \<not> (c \<noteq> 0) then Inr None
                 else (let b = Reset b BlockFirst in
                       bindP (swapSuccessors b) (\<lambda>b. Inr (Some b)))))]))
    | BlockMIPSGEZ \<Rightarrow>
        bindP (control0 b) (\<lambda>c0.
        finishB b (first_match [
          \<comment> \<open>(GEZ (MOVWconst [c]) yes no), int32(c) >= 0, gives (First yes no)\<close>
          (if Op c0 \<noteq> OpMIPSMOVWconst then Inr None
           else (let v_0 = c0; c = AuxInt v_0 in
                 if \<not> (0 \<le> sint (int32 c)) then Inr None
                 else (let b = Reset b BlockFirst in Inr (Some b)))),
          \<comment> \<open>(GEZ (MOVWconst [c]) yes no), int32(c) < 0, gives (First no yes)\<close>
          (if Op c0 \<noteq> OpMIPSMOVWconst then Inr None
           else (let v_0 = c0; c = AuxInt v_0 in
                 if \<not> (sint (int32 c) < 0) then Inr None
                 else (let b = Reset b BlockFirst in
                       bindP (swapSuccessors b) (\<lambda>b. Inr (Some b)))))]))
    | BlockMIPSGTZ \<Rightarrow>
        bindP (control0 b) (\<lambda>c0.
        finishB b (first_match [
          \<comment> \<open>(GTZ (MOVWconst [c]) yes no), int32(c) > 0, gives (First yes no)\<close>
          (if Op c0 \<noteq> OpMIPSMOVWconst then Inr None
           else (let v_0 = c0; c = AuxInt v_0 in
                 if \<not> (0 < sint (int32 c)) then Inr None
                 else (let b = Reset b BlockFirst in Inr (Some b)))),
          \<comment> \<open>(GTZ (MOVWconst [c]) yes no), int32(c) <= 0, gives (First no yes)\<close>
          (if Op c0 \<noteq> OpMIPSMOVWconst then Inr None
           else (let v_0 = c0; c = AuxInt v_0 in
                 if \<not> (sint (int32 c) \<le> 0) then Inr None
                 else (let b = Reset b BlockFirst in
                       bindP (swapSuccessors b) (\<lambda>b. Inr (Some b)))))]))
    | BlockIf \<Rightarrow>
        \<comment> \<open>(If cond yes no) gives (NE cond yes no)\<close>
        bindP (control0 b) (\<lambda>cond.
        (let b = Reset b BlockMIPSNE;
             b = AddControl b cond
         in Inr (True, b)))
    | BlockMIPSLEZ \<Rightarrow>
        bindP (control0 b) (\<lambda>c0.
        finishB b (first_match [
          \<comment> \<open>(LEZ (MOVWconst [c]) yes no), int32(c) <= 0, gives (First yes no)\<close>
          (if Op c0 \<noteq> OpMIPSMOVWconst then Inr None
           else (let v_0 = c0; c = AuxInt v_0 in
                 if \<not> (sint (int32 c) \<le> 0) then Inr None
                 else (let b = Reset b BlockFirst in Inr (Some b)))),
          \<comment> \<open>(LEZ (MOVWconst [c]) yes no), int32(c) > 0, gives (First no yes)\<close>
          (if Op c0 \<noteq> OpMIPSMOVWconst then Inr None
           else (let v_0 = c0; c = AuxInt v_0 in
                 if \<not> (0 < sint (int32 c)) then Inr None
                 else (let b = Reset b BlockFirst in
                       bindP (swapSuccessors b) (\<lambda>b. Inr (Some b)))))]))
    | BlockMIPSLTZ \<Rightarrow>
        bindP (control0 b) (\<lambda>c0.
        finishB b (first_match [
          \<comment> \<open>(LTZ (MOVWconst [c]) yes no), int32(c) < 0, gives (First yes no)\<close>
          (if Op c0 \<noteq> OpMIPSMOVWconst then Inr None
           else (let v_0 = c0; c = AuxInt v_0 in
                 if \<not> (sint (int32 c) < 0) then Inr None
                 else (let b = Reset b BlockFirst in Inr (Some b)))),
          \<comment> \<open>(LTZ (MOVWconst [c]) yes no), int32(c) >= 0, gives (First no yes)\<close>
          (if Op c0 \<noteq> OpMIPSMOVWconst then Inr None
           else (let v_0 = c0; c = AuxInt v_0 in
                 if \<not> (0 \<le> sint (int32 c)) then Inr None
                 else (let b = Reset b BlockFirst in
                       bindP (swapSuccessors b) (\<lambda>b. Inr (Some b)))))]))
    | BlockMIPSNE \<Rightarrow>
        bindP (control0 b) (\<lambda>c0.
        finishB b (first_match [
          \<comment> \<open>(NE (FPFlagTrue cmp) yes no) gives (FPT cmp yes no)\<close>
          (if Op c0 \<noteq> OpMIPSFPFlagTrue then Inr None
           else (let v_0 = c0 in
                 bindP (arg v_0 0) (\<lambda>cmp.
                 (let b = Reset b BlockMIPSFPT;
                      b = AddControl b cmp
                  in Inr (Some b))))),
          \<comment> \<open>(NE (FPFlagFalse cmp) yes no) gives (FPF cmp yes no)\<close>
          (if Op c0 \<noteq> OpMIPSFPFlagFalse then Inr None
           else (let v_0 = c0 in
                 bindP (arg v_0 0) (\<lambda>cmp.
                 (let b = Reset b BlockMIPSFPF;
                      b = AddControl b cmp
                  in Inr (Some b))))),
          \<comment> \<open>(NE (XORconst [1] cmp:(SGT _ _)) yes no) gives (EQ cmp yes no)\<close>
          (if Op c0 \<noteq> OpMIPSXORconst then Inr None
           else (let v_0 = c0 in
                 if AuxInt v_0 \<noteq> 1 then Inr None
                 else bindP (arg v_0 0) (\<lambda>cmp.
                      if Op cmp \<noteq> OpMIPSSGT then Inr None
                      else bindP (arg cmp 1) (\<lambda>_.
                       (let b = Reset b BlockMIPSEQ;
                                b = AddControl b cmp
                            in Inr (Some b)))))),
          \<comment> \<open>(NE (XORconst [1] cmp:(SGTU _ _)) yes no) gives (EQ cmp yes no)\<close>
          (if Op c0 \<noteq> OpMIPSXORconst then Inr None
           else (let v_0 = c0 in
                 if AuxInt v_0 \<noteq> 1 then Inr None
                 else bindP (arg v_0 0) (\<lambda>cmp.
                      if Op cmp \<noteq> OpMIPSSGTU then Inr None
                      else bindP (arg cmp 1) (\<lambda>_.
                       (let b = Reset b BlockMIPSEQ;
                                b = AddControl b cmp
                            in Inr (Some b)))))),
          \<comment> \<open>(NE (XORconst [1] cmp:(SGTconst _)) yes no) gives (EQ cmp yes no)\<close>
          (if Op c0 \<noteq> OpMIPSXORconst then Inr None
           else (let v_0 = c0 in
                 if AuxInt v_0 \<noteq> 1 then Inr None
                 else bindP (arg v_0 0) (\<lambda>cmp.
                      if Op cmp \<noteq> OpMIPSSGTconst then Inr None
                      else (let b = Reset b BlockMIPSEQ;
                                b = AddControl b cmp
                            in Inr (Some b))))),
          \<comment> \<open>(NE (XORconst [1] cmp:(SGTUconst _)) yes no) gives (EQ cmp yes no)\<close>
          (if Op c0 \<noteq> OpMIPSXORconst then Inr None
           else (let v_0 = c0 in
                 if AuxInt v_0 \<noteq> 1 then Inr None
                 else bindP (arg v_0 0) (\<lambda>cmp.
                      if Op cmp \<noteq> OpMIPSSGTUconst then Inr None
                      else (let b = Reset b BlockMIPSEQ;
                                b = AddControl b cmp
                            in Inr (Some b))))),
          \<comment> \<open>(NE (XORconst [1] cmp:(SGTzero _)) yes no) gives (EQ cmp yes no)\<close>
          (if Op c0 \<noteq> OpMIPSXORconst then Inr None
           else (let v_0 = c0 in
                 if AuxInt v_0 \<noteq> 1 then Inr None
                 else bindP (arg v_0 0) (\<lambda>cmp.
                      if Op cmp \<noteq> OpMIPSSGTzero then Inr None
                      else (let b = Reset b BlockMIPSEQ;
                                b = AddControl b cmp
                            in Inr (Some b))))),
          \<comment> \<open>(NE (XORconst [1] cmp:(SGTUzero _)) yes no) gives (EQ cmp yes no)\<close>
          (if Op c0 \<noteq> OpMIPSXORconst then Inr None
           else (let v_0 = c0 in
                 if AuxInt v_0 \<noteq> 1 then Inr None
                 else bindP (arg v_0 0) (\<lambda>cmp.
                      if Op cmp \<noteq> OpMIPSSGTUzero then Inr None
                      else (let b = Reset b BlockMIPSEQ;
                                b = AddControl b cmp
                            in Inr (Some b))))),
          \<comment> \<open>(NE (SGTUconst [1] x) yes no) gives (EQ x yes no)\<close>
          (if Op c0 \<noteq> OpMIPSSGTUconst then Inr None
           else (let v_0 = c0 in
                 if AuxInt v_0 \<noteq> 1 then Inr None
                 else bindP (arg v_0 0) (\<lambda>x.
                 (let b = Reset b BlockMIPSEQ;
                      b = AddControl b x
                  in Inr (Some b))))),
          \<comment> \<open>(NE (SGTUzero x) yes no) gives (NE x yes no)\<close>
          (if Op c0 \<noteq> OpMIPSSGTUzero then Inr None
           else (let v_0 = c0 in
                 bindP (arg v_0 0) (\<lambda>x.
                 (let b = Reset b BlockMIPSNE;
                      b = AddControl b x
                  in Inr (Some b))))),
          \<comment> \<open>(NE (SGTconst [0] x) yes no) gives (LTZ x yes no)\<close>
          (if Op c0 \<noteq> OpMIPSSGTconst then Inr None
           else (let v_0 = c0 in
                 if AuxInt v_0 \<noteq> 0 then Inr None
                 else bindP (arg v_0 0) (\<lambda>x.
                 (let b = Reset b BlockMIPSLTZ;
                      b = AddControl b x
                  in Inr (Some b))))),
          \<comment> \<open>(NE (SGTzero x) yes no) gives (GTZ x yes no)\<close>
          (if Op c0 \<noteq> OpMIPSSGTzero then Inr None
           else (let v_0 = c0 in
                 bindP (arg v_0 0) (\<lambda>x.
                 (let b = Reset b BlockMIPSGTZ;
                      b = AddControl b x
                  in Inr (Some b))))),
          \<comment> \<open>(NE (MOVWconst [0]) yes no) gives (First no yes)\<close>
          (if Op c0 \<noteq> OpMIPSMOVWconst then Inr None
           else (let v_0 = c0 in
                 if AuxInt v_0 \<noteq> 0 then Inr None
                 else (let b = Reset b BlockFirst in
                       bindP (swapSuccessors b) (\<lambda>b. Inr (Some b))))),
          \<comment> \<open>(NE (MOVWconst [c]) yes no), c != 0, gives (First yes no)\<close>
          (if Op c0 \<noteq> OpMIPSMOVWconst then Inr None
           else (let v_0 = c0; c = AuxInt v_0 in
                 if \<not> (c \<noteq> 0) then Inr None
                 else (let b = Reset b BlockFirst in Inr (Some b))))]))
    | _ \<Rightarrow> Inr (False, b))"

section \<open>The rewrite engine\<close>

text \<open>
  Modelled from the spec: the driver of the rewrite engine is not among the sources. For each
  value in the block, dispatch on its Op to the matcher; if any rule fires, replace the value in
  place and mark the block changed; iterate to fixpoint. On a value given as a term, one
  pass visits the arguments (which come earlier in the block) and then the value itself.
\<close>

fun applyPass :: "rewrite_go \<Rightarrow> nat \<Rightarrow> Value \<Rightarrow> panic + bool \<times> Value \<times> nat"
  and applyPassArgs :: "rewrite_go \<Rightarrow> nat \<Rightarrow> Value list \<Rightarrow> panic + bool \<times> Value list \<times> nat" where
  "applyPass h nv (Value i op t c a u args) =
     bindP (applyPassArgs h nv args) (\<lambda>(changed, args', nv').
     bindP (rewriteValueMIPS h nv' (Value i op t c a u args')) (\<lambda>(fired, v', nv'').
     Inr (changed \<or> fired, v', nv'')))"
| "applyPassArgs h nv [] = Inr (False, [], nv)"
| "applyPassArgs h nv (x # xs) =
     bindP (applyPass h nv x) (\<lambda>(c1, x', nv').
     bindP (applyPassArgs h nv' xs) (\<lambda>(c2, xs', nv'').
     Inr (c1 \<or> c2, x' # xs', nv'')))"

text \<open>The fixpoint loop has no bound of its own: not returning is the value \<open>None\<close>.\<close>

partial_function (option) applyRewrite :: "rewrite_go \<Rightarrow> nat \<Rightarrow> Value
    \<Rightarrow> (panic + Value \<times> nat) option" where
  "applyRewrite h nv v =
     (case applyPass h nv v of
        Inl e \<Rightarrow> Some (Inl e)
      | Inr (changed, v', nv') \<Rightarrow>
          if changed then applyRewrite h nv' v' else Some (Inr (v', nv')))"

declare applyRewrite.simps [code]

section \<open>The stack-slot allocator (stackalloc.go)\<close>

text \<open>Slices indexed by an ID: reading or writing out of range panics.\<close>

definition idx :: "'a list \<Rightarrow> nat \<Rightarrow> panic + 'a" where
  "idx xs i = (if i < length xs then Inr (xs ! i) else Inl IndexOutOfRange)"

definition upd :: "'a list \<Rightarrow> nat \<Rightarrow> 'a \<Rightarrow> panic + 'a list" where
  "upd xs i x = (if i < length xs then Inr (xs[i := x]) else Inl IndexOutOfRange)"

text \<open>A \<^verbatim>\<open>for ... range\<close> loop over a slice, with the loop state passed along.\<close>

fun for_range :: "'a list \<Rightarrow> 's \<Rightarrow> ('a \<Rightarrow> 's \<Rightarrow> panic + 's) \<Rightarrow> panic + 's" where
  "for_range [] s body = Inr s"
| "for_range (x # xs) s body = bindP (body x s) (\<lambda>s'. for_range xs s' body)"

text \<open>
  Modelled from the spec: the sparse set of \<^verbatim>\<open>sparseset.go\<close> is not among the sources. It
  is a dense-indexed set over value IDs; it is the list of its members here, without
  duplicates. The spec does not fix the order of \<^verbatim>\<open>contents\<close>.
\<close>

type_synonym sparseSet = "ID list"

definition add :: "sparseSet \<Rightarrow> ID \<Rightarrow> sparseSet" where
  "add s x = (if x \<in> set s then s else s @ [x])"

definition addAll :: "sparseSet \<Rightarrow> ID list \<Rightarrow> sparseSet" where
  "addAll s xs = foldl add s xs"

definition remove :: "sparseSet \<Rightarrow> ID \<Rightarrow> sparseSet" where
  "remove s x = filter (\<lambda>y. y \<noteq> x) s"

definition contents :: "sparseSet \<Rightarrow> ID list" where
  "contents s = s"

definition size_of :: "sparseSet \<Rightarrow> nat" where
  "size_of s = length s"

text \<open>
  A predecessor is a pointer to a block in Go. Here it is the ID of a block, looked up among the
  blocks of the function; an ID that names no block has no live sets, and indexing them panics.
\<close>

definition blockOf :: "Func \<Rightarrow> ID \<Rightarrow> panic + Block" where
  "blockOf f bid =
     (case filter (\<lambda>b. Block.ID b = bid) (Blocks f) of
        [] \<Rightarrow> Inl IndexOutOfRange
      | b # _ \<Rightarrow> Inr b)"

subsection \<open>liveSpills\<close>

definition liveSpills_init :: "Func \<Rightarrow> panic + ID list list list" where
  "liveSpills_init f =
     for_range (Blocks f) (replicate (NumBlocks f) [])
       (\<lambda>b live. upd live (Block.ID b) (replicate (length (Succs b)) []))"

text \<open>The values live at the end of the block: the union of the live sets of its out-edges.\<close>

definition liveAtEnd :: "ID list list list \<Rightarrow> Block \<Rightarrow> panic + sparseSet" where
  "liveAtEnd live b =
     for_range [0 ..< length (Succs b)] []
       (\<lambda>i s. bindP (idx live (Block.ID b)) (\<lambda>lb. bindP (idx lb i) (\<lambda>l. Inr (addAll s l))))"

text \<open>The backward walk of \<^verbatim>\<open>liveSpills\<close> over the values of a block.\<close>

definition liveSpills_value :: "Func \<Rightarrow> Value \<Rightarrow> sparseSet \<times> Value list
    \<Rightarrow> panic + sparseSet \<times> Value list" where
  "liveSpills_value f v = (\<lambda>(s, phis).
     if Op v = OpStoreReg then Inr (remove s (Value.ID v), phis)
     else if Op v = OpLoadReg then bindP (arg v 0) (\<lambda>a. Inr (add s (Value.ID a), phis))
     else if isStackPhi f v then Inr (remove s (Value.ID v), phis @ [v])
     else Inr (s, phis))"

text \<open>The index of \<^verbatim>\<open>b\<close> among the successors of \<^verbatim>\<open>p\<close>, or their number if it is not there.\<close>

fun succIndex :: "ID list \<Rightarrow> ID \<Rightarrow> nat" where
  "succIndex [] bid = 0"
| "succIndex (x # xs) bid = (if x = bid then 0 else Suc (succIndex xs bid))"

definition liveSpills_pred :: "Func \<Rightarrow> Block \<Rightarrow> sparseSet \<Rightarrow> Value list \<Rightarrow> nat
    \<Rightarrow> ID list list list \<times> bool \<Rightarrow> panic + ID list list list \<times> bool" where
  "liveSpills_pred f b s phis i = (\<lambda>(live, changed).
     bindP (idx (Preds b) i) (\<lambda>pid.
     bindP (blockOf f pid) (\<lambda>p.
     (let j = succIndex (Succs p) (Block.ID b) in
      bindP (idx live (Block.ID p)) (\<lambda>lp.
      bindP (idx lp j) (\<lambda>lpj.
      (let t = addAll [] lpj;
           t = addAll t (contents s)
       in bindP (for_range phis t (\<lambda>v t. bindP (arg v i) (\<lambda>a. Inr (add t (Value.ID a))))) (\<lambda>t.
          if size_of t = length lpj then Inr (live, changed)
          else bindP (upd lp j (contents t)) (\<lambda>lp'.
               bindP (upd live (Block.ID p) lp') (\<lambda>live'.
               Inr (live', True)))))))))))"

text \<open>
  The first half of the loop body: the values live at the start of the block and its stack
  phis, from the values live at its end.
\<close>

definition liveAtStart :: "Func \<Rightarrow> ID list list list \<Rightarrow> Block \<Rightarrow> panic + sparseSet \<times> Value list" where
  "liveAtStart f live b =
     bindP (liveAtEnd live b) (\<lambda>s.
     for_range (rev (Values b)) (s, []) (liveSpills_value f))"

definition liveSpills_block :: "Func \<Rightarrow> Block \<Rightarrow> ID list list list \<times> bool
    \<Rightarrow> panic + ID list list list \<times> bool" where
  "liveSpills_block f b = (\<lambda>(live, changed).
     bindP (liveAtStart f live b) (\<lambda>(s, phis).
     for_range [0 ..< length (Preds b)] (live, changed) (liveSpills_pred f b s phis)))"

definition liveSpills_pass :: "Func \<Rightarrow> Block list \<Rightarrow> ID list list list
    \<Rightarrow> panic + ID list list list \<times> bool" where
  "liveSpills_pass f po live = for_range po (live, False) (liveSpills_block f)"

text \<open>The loop \<^verbatim>\<open>for { ... if !changed { break } }\<close>; not returning is the value \<open>None\<close>.\<close>

partial_function (option) liveSpills_loop :: "Func \<Rightarrow> Block list \<Rightarrow> ID list list list
    \<Rightarrow> (panic + ID list list list) option" where
  "liveSpills_loop f po live =
     (case liveSpills_pass f po live of
        Inl e \<Rightarrow> Some (Inl e)
      | Inr (live', changed) \<Rightarrow>
          if changed then liveSpills_loop f po live' else Some (Inr live'))"

declare liveSpills_loop.simps [code]

text \<open>
  \<^verbatim>\<open>postorder\<close> of the CFG utilities is not among the sources; \<^verbatim>\<open>liveSpills\<close> and
  \<^verbatim>\<open>stackalloc\<close> take it as a parameter.
\<close>

definition liveSpills :: "(Func \<Rightarrow> Block list) \<Rightarrow> Func \<Rightarrow> (panic + ID list list list) option" where
  "liveSpills postorder f =
     (case liveSpills_init f of
        Inl e \<Rightarrow> Some (Inl e)
      | Inr live \<Rightarrow> liveSpills_loop f (postorder f) live)"

subsection \<open>stackalloc\<close>

text \<open>All values of the function, block by block: the nest \<^verbatim>\<open>for b ... for v\<close>.\<close>

definition allValues :: "Func \<Rightarrow> Value list" where
  "allValues f = concat (map Values (Blocks f))"

text \<open>Cache value types by ID. An entry that is never written holds the nil type.\<close>

definition stackalloc_types :: "Func \<Rightarrow> panic + Type option list" where
  "stackalloc_types f =
     for_range (allValues f) (replicate (NumValues f) None)
       (\<lambda>v types. upd types (Value.ID v) (Some (Value.Type v)))"

text \<open>\<^verbatim>\<open>interfere[x] = append(interfere[x], y)\<close>.\<close>

definition append_at :: "ID list list \<Rightarrow> ID \<Rightarrow> ID \<Rightarrow> panic + ID list list" where
  "append_at interfere x y = bindP (idx interfere x) (\<lambda>l. upd interfere x (l @ [y]))"

text \<open>
  The backward walk that builds the interference graph. \<^verbatim>\<open>Equal\<close> of a type and the nil
  type is false.
\<close>

definition interfere_value :: "Func \<Rightarrow> Type option list \<Rightarrow> Value \<Rightarrow> sparseSet \<times> ID list list
    \<Rightarrow> panic + sparseSet \<times> ID list list" where
  "interfere_value f types v = (\<lambda>(s, interfere).
     if Op v = OpStoreReg \<or> isStackPhi f v then
       (let s = remove s (Value.ID v) in
        bindP (for_range (contents s) interfere
                 (\<lambda>xid interfere.
                    bindP (idx types xid) (\<lambda>t.
                    if Some (Value.Type v) = t then
                      bindP (append_at interfere (Value.ID v) xid) (\<lambda>interfere.
                      append_at interfere xid (Value.ID v))
                    else Inr interfere)))
          (\<lambda>interfere. Inr (s, interfere)))
     else if Op v = OpLoadReg then
       bindP (arg v 0) (\<lambda>a. Inr (add s (Value.ID a), interfere))
     else Inr (s, interfere))"

definition interfere_block :: "Func \<Rightarrow> Type option list \<Rightarrow> ID list list list \<Rightarrow> Block
    \<Rightarrow> ID list list \<Rightarrow> panic + ID list list" where
  "interfere_block f types live b interfere =
     bindP (liveAtEnd live b) (\<lambda>s.
     bindP (for_range (rev (Values b)) (s, interfere) (interfere_value f types))
       (\<lambda>(s, interfere). Inr interfere))"

definition stackalloc_interfere :: "Func \<Rightarrow> Type option list \<Rightarrow> ID list list list
    \<Rightarrow> panic + ID list list" where
  "stackalloc_interfere f types live =
     for_range (Blocks f) (replicate (NumValues f) []) (interfere_block f types live)"

text \<open>
  Build map from values to their names, if any. The zero \<^verbatim>\<open>LocalSlot\<close> has the nil node;
  its nil type is \<open>TypeInvalid\<close> here.
\<close>

definition zeroLocalSlot :: LocalSlot where
  "zeroLocalSlot = \<lparr>N = None, Type = TypeInvalid, Off = 0\<rparr>"

definition stackalloc_names :: "Func \<Rightarrow> panic + LocalSlot list" where
  "stackalloc_names f =
     for_range (Names f) (replicate (NumValues f) zeroLocalSlot)
       (\<lambda>name names.
          for_range (NamedValues f name) names (\<lambda>v names. upd names (Value.ID v) name))"

text \<open>Figure out which StoreReg ops are phi args.\<close>

definition stackalloc_phiArg :: "Func \<Rightarrow> panic + bool list" where
  "stackalloc_phiArg f =
     for_range (allValues f) (replicate (NumValues f) False)
       (\<lambda>v phiArg.
          if \<not> isStackPhi f v then Inr phiArg
          else for_range (Args v) phiArg (\<lambda>a phiArg. upd phiArg (Value.ID a) True))"

text \<open>
  Allocate args to their assigned locations. \<^verbatim>\<open>f.Entry\<close> is a pointer to the entry block;
  \<^verbatim>\<open>v.Aux.(GCNode)\<close> panics when the auxiliary is not a node.
\<close>

definition stackalloc_args :: "Func \<Rightarrow> panic + Func" where
  "stackalloc_args f =
     bindP (blockOf f (Entry f)) (\<lambda>entry.
     for_range (Values entry) f
       (\<lambda>v f.
          if Op v \<noteq> OpArg then Inr f
          else (case Aux v of
                  AuxNode n \<Rightarrow>
                    Inr (setHome f v (Some (Slot \<lparr>N = Some n, Type = Value.Type v, Off = AuxInt v\<rparr>)))
                | _ \<Rightarrow> Inl TypeAssertion)))"

text \<open>
  The scan of the homes of interfering values for the name, which ends at the first hit
  (\<^verbatim>\<open>goto noname\<close>). \<^verbatim>\<open>h.(LocalSlot)\<close> panics when the home is a register.
\<close>

fun name_conflict :: "Func \<Rightarrow> LocalSlot \<Rightarrow> ID list \<Rightarrow> panic + bool" where
  "name_conflict f name [] = Inr False"
| "name_conflict f name (xid # ids) =
     (case getHome f xid of
        None \<Rightarrow> name_conflict f name ids
      | Some (Register r) \<Rightarrow> Inl TypeAssertion
      | Some (Slot h) \<Rightarrow> if h = name then Inr True else name_conflict f name ids)"

text \<open>The same scan over the interfering values of each argument of a phi.\<close>

fun name_conflict_args :: "Func \<Rightarrow> LocalSlot \<Rightarrow> ID list list \<Rightarrow> Value list \<Rightarrow> panic + bool" where
  "name_conflict_args f name interfere [] = Inr False"
| "name_conflict_args f name interfere (a # as) =
     bindP (idx interfere (Value.ID a)) (\<lambda>ids.
     bindP (name_conflict f name ids) (\<lambda>hit.
     if hit then Inr True else name_conflict_args f name interfere as))"

text \<open>Mark all positions in \<^verbatim>\<open>locs\<close> used by the values of a list of interfering IDs.\<close>

definition mark_used :: "int list \<Rightarrow> ID list \<Rightarrow> bool list \<Rightarrow> panic + bool list" where
  "mark_used slots ids used =
     for_range ids used
       (\<lambda>xid used.
          bindP (idx slots xid) (\<lambda>slot.
          if slot \<ge> 0 then upd used (nat slot) True else Inr used))"

text \<open>Find an unused stack slot: the first index below \<^verbatim>\<open>n\<close> that is not marked, or \<^verbatim>\<open>n\<close>.\<close>

function find_unused :: "bool list \<Rightarrow> nat \<Rightarrow> nat \<Rightarrow> panic + nat" where
  "find_unused used n i =
     (if i < n then
        bindP (idx used i) (\<lambda>u. if \<not> u then Inr i else find_unused used n (Suc i))
      else Inr i)"
  by pat_completeness auto
termination
  by (relation "measure (\<lambda>(used, n, i). n - i)") auto

declare find_unused.simps [simp del]

text \<open>
  Modelled from the spec: \<^verbatim>\<open>Auto(type)\<close> of the frontend allocates a local and returns its
  symbol. The temporary it makes is a new node, numbered by the count of temporaries made so
  far.
\<close>

definition Auto :: "Func \<Rightarrow> Type \<Rightarrow> GCNode \<times> Func" where
  "Auto f t = (AutoNode (autos f), f\<lparr>autos := Suc (autos f)\<rparr>)"

text \<open>The state of the slot-picking loop.\<close>

record pick_state =
  func :: Func
  locations :: "Type \<Rightarrow> LocalSlot list"
  slots :: "int list"
  used :: "bool list"

text \<open>The homes of a value and, for a phi, of its arguments.\<close>

definition setHomes :: "Func \<Rightarrow> Value \<Rightarrow> LocalSlot \<Rightarrow> Func" where
  "setHomes f v loc =
     (let f = setHome f v (Some (Slot loc)) in
      if Op v = OpPhi then foldl (\<lambda>f a. setHome f a (Some (Slot loc))) f (Args v) else f)"

text \<open>The part of the loop body from the label \<^verbatim>\<open>noname\<close> on.\<close>

definition pick_noname :: "ID list list \<Rightarrow> Value \<Rightarrow> pick_state \<Rightarrow> panic + pick_state" where
  "pick_noname interfere v st =
     (let locs = locations st (Value.Type v) in
      bindP (for_range [0 ..< length locs] (used st) (\<lambda>i used. upd used i False)) (\<lambda>used.
      bindP (idx interfere (Value.ID v)) (\<lambda>ids.
      bindP (mark_used (slots st) ids used) (\<lambda>used.
      bindP (if Op v = OpPhi then
               for_range (Args v) used
                 (\<lambda>a used. bindP (idx interfere (Value.ID a)) (\<lambda>ids. mark_used (slots st) ids used))
             else Inr used) (\<lambda>used.
      bindP (find_unused used (length locs) 0) (\<lambda>i.
      (let (locs, f, locations) =
             (if i = length locs then
                (let (n, f) = Auto (func st) (Value.Type v);
                     locs = locs @ [\<lparr>N = Some n, Type = Value.Type v, Off = 0\<rparr>]
                 in (locs, f, (locations st)(Value.Type v := locs)))
              else (locs, func st, locations st))
       in bindP (idx locs i) (\<lambda>loc.
          (let f = setHome f v (Some (Slot loc)) in
           bindP (upd (slots st) (Value.ID v) (int i)) (\<lambda>slots.
           bindP (if Op v = OpPhi then
                    for_range (Args v) (f, slots)
                      (\<lambda>a (f, slots).
                         (let f = setHome f a (Some (Slot loc)) in
                          bindP (upd slots (Value.ID a) (int i)) (\<lambda>slots. Inr (f, slots))))
                  else Inr (f, slots)) (\<lambda>(f, slots).
           Inr \<lparr>func = f, locations = locations, slots = slots, used = used\<rparr>)))))))))))"

text \<open>The body of the slot-picking loop for one value.\<close>

definition pick_value :: "ID list list \<Rightarrow> LocalSlot list \<Rightarrow> bool list \<Rightarrow> Value \<Rightarrow> pick_state
    \<Rightarrow> panic + pick_state" where
  "pick_value interfere names phiArg v st =
     (if Op v \<noteq> OpStoreReg \<and> \<not> isStackPhi (func st) v then Inr st
      else bindP (idx phiArg (Value.ID v)) (\<lambda>isArg.
           if isArg then Inr st
           else
             \<comment> \<open>If this is a named value, try to use the name as the spill location.\<close>
             bindP (if Op v = OpStoreReg then bindP (arg v 0) (\<lambda>a. idx names (Value.ID a))
                    else idx names (Value.ID v)) (\<lambda>name.
             if N name \<noteq> None \<and> Value.Type v = LocalSlot.Type name then
               bindP (idx interfere (Value.ID v)) (\<lambda>ids.
               bindP (name_conflict (func st) name ids) (\<lambda>hit.
               if hit then pick_noname interfere v st
               else bindP (if Op v = OpPhi
                           then name_conflict_args (func st) name interfere (Args v)
                           else Inr False) (\<lambda>hit.
                    if hit then pick_noname interfere v st
                    else Inr (st\<lparr>func := setHomes (func st) v name\<rparr>))))
             else pick_noname interfere v st)))"

definition stackalloc_pick :: "Func \<Rightarrow> ID list list \<Rightarrow> LocalSlot list \<Rightarrow> bool list
    \<Rightarrow> panic + pick_state" where
  "stackalloc_pick f interfere names phiArg =
     for_range (allValues f)
       \<lparr>func = f, locations = (\<lambda>_. []), slots = replicate (NumValues f) (- 1),
        used = replicate (NumValues f) False\<rparr>
       (pick_value interfere names phiArg)"

text \<open>\<^verbatim>\<open>stackalloc\<close>: the phases in the order of the source.\<close>

definition stackalloc_rest :: "Func \<Rightarrow> Type option list \<Rightarrow> ID list list list \<Rightarrow> panic + Func" where
  "stackalloc_rest f types live =
     bindP (stackalloc_interfere f types live) (\<lambda>interfere.
     bindP (stackalloc_names f) (\<lambda>names.
     bindP (stackalloc_phiArg f) (\<lambda>phiArg.
     bindP (stackalloc_args f) (\<lambda>f.
     bindP (stackalloc_pick f interfere names phiArg) (\<lambda>st.
     Inr (func st))))))"

definition stackalloc :: "(Func \<Rightarrow> Block list) \<Rightarrow> Func \<Rightarrow> (panic + Func) option" where
  "stackalloc postorder f =
     (case stackalloc_types f of
        Inl e \<Rightarrow> Some (Inl e)
      | Inr types \<Rightarrow>
          (case liveSpills postorder f of
             None \<Rightarrow> None
           | Some (Inl e) \<Rightarrow> Some (Inl e)
           | Some (Inr live) \<Rightarrow> Some (stackalloc_rest f types live)))"

section \<open>Properties of the home map\<close>

lemma growRegAlloc_eq:
  "growRegAlloc vid ra = ra @ replicate (Suc vid - length ra) None"
proof (induction vid ra rule: growRegAlloc.induct)
  case (1 vid ra)
  show ?case
  proof (cases "vid \<ge> length ra")
    case True
    then have "Suc vid - length ra = Suc (Suc vid - length (ra @ [None]))"
      by simp
    with 1 True show ?thesis
      by (subst growRegAlloc.simps) (simp add: replicate_app_Cons_same)
  next
    case False
    then show ?thesis
      by (subst growRegAlloc.simps) simp
  qed
qed

lemma length_growRegAlloc: "length (growRegAlloc vid ra) = max (Suc vid) (length ra)"
  by (simp add: growRegAlloc_eq)

lemma growRegAlloc_nth:
  "i < length (growRegAlloc vid ra) \<Longrightarrow>
   growRegAlloc vid ra ! i = (if i < length ra then ra ! i else None)"
  by (simp add: growRegAlloc_eq nth_append)

lemma getHome_setHome_same: "getHome (setHome f v loc) (Value.ID v) = loc"
  by (simp add: getHome_def setHome_def length_growRegAlloc)

lemma getHome_setHome_other:
  "vid \<noteq> Value.ID v \<Longrightarrow> getHome (setHome f v loc) vid = getHome f vid"
  by (auto simp: getHome_def setHome_def length_growRegAlloc growRegAlloc_eq nth_append)

lemma getHome_beyond: "length (RegAlloc f) \<le> vid \<Longrightarrow> getHome f vid = None"
  by (simp add: getHome_def)

text \<open>
  C9. The home map is a consistent store: after \<^verbatim>\<open>setHome(v, loc)\<close> the home of
  \<^verbatim>\<open>v.ID\<close> is \<^verbatim>\<open>loc\<close> and the home of every other ID is what it was; and for every ID at or
  beyond the length of \<^verbatim>\<open>RegAlloc\<close>, \<^verbatim>\<open>getHome\<close> returns nil without indexing the slice, so
  the home of a value that was never given one is nil.
\<close>

theorem home_map_consistent:
  "getHome (setHome f v loc) (Value.ID v) = loc
   \<and> (\<forall>vid. vid \<noteq> Value.ID v \<longrightarrow> getHome (setHome f v loc) vid = getHome f vid)
   \<and> (\<forall>vid. length (RegAlloc f) \<le> vid \<longrightarrow> getHome f vid = None)"
  by (simp add: getHome_setHome_same getHome_setHome_other getHome_beyond)

theorem home_map_consistent_witness:
  "getHome (setHome \<lparr>Blocks = [], Entry = 0, RegAlloc = [None, Some (Register 4)],
        Names = [], NamedValues = (\<lambda>_. []), NumValues = 6, NumBlocks = 1, autos = 0\<rparr>
      (Value 5 OpStoreReg TypeInt32 0 AuxNil 0 []) (Some (Register 7))) 5 = Some (Register 7)
   \<and> getHome (setHome \<lparr>Blocks = [], Entry = 0, RegAlloc = [None, Some (Register 4)],
        Names = [], NamedValues = (\<lambda>_. []), NumValues = 6, NumBlocks = 1, autos = 0\<rparr>
      (Value 5 OpStoreReg TypeInt32 0 AuxNil 0 []) (Some (Register 7))) 1 = Some (Register 4)
   \<and> getHome \<lparr>Blocks = [], Entry = 0, RegAlloc = [None, Some (Register 4)],
        Names = [], NamedValues = (\<lambda>_. []), NumValues = 6, NumBlocks = 1, autos = 0\<rparr> 3 = None"
proof -
  let ?f = "\<lparr>Blocks = [], Entry = 0, RegAlloc = [None, Some (Register 4)],
        Names = [], NamedValues = (\<lambda>_. []), NumValues = 6, NumBlocks = 1, autos = 0\<rparr>"
  let ?v = "Value 5 OpStoreReg TypeInt32 0 AuxNil 0 []"
  note h = home_map_consistent [of ?f ?v "Some (Register 7)"]
  have a: "(1::nat) \<noteq> Value.ID ?v" by simp
  have b: "length (RegAlloc ?f) \<le> (3::nat)" by simp
  have c: "getHome ?f 1 = Some (Register 4)" by (simp add: getHome_def)
  from h a b c show ?thesis by (metis Value.sel(1))
qed

section \<open>Properties of the value matchers\<close>

lemmas rewrite_defs = bindP_def arg_def reset_def AddArg_def set_AuxInt_def set_Aux_def
  set_Type_def NewValue0_def FieldType_def int32_def int64_of_int32_def int64_of_uint32_def
  int32_div_def int32_mod_def uint32_div_def uint32_mod_def commute_def finish_def finishN_def
  lift_def

text \<open>
  C1. The matchers are not total. \<^verbatim>\<open>rewriteValueMIPS_OpSelect1\<close> and
  \<^verbatim>\<open>rewriteValueMIPS_OpSelect0\<close>, applied to Select1 or Select0 of
  \<^verbatim>\<open>(DIV (MOVWconst [c]) (MOVWconst [d]))\<close>, return the folded constant when \<^verbatim>\<open>int32(d)\<close> is
  not zero; when it is zero the division that the compiler itself performs panics with an
  integer divide by zero, and so does the dispatcher on that value.
\<close>

theorem select_div_fold_divide_by_zero:
  "rewriteValueMIPS_OpSelect1 p l nv
     (Value i OpSelect1 t x a u
        [Value i0 OpMIPSDIV t0 x0 a0 u0
           [Value i1 OpMIPSMOVWconst t1 c a1 u1 as1, Value i2 OpMIPSMOVWconst t2 d a2 u2 as2]])
   = (if int32 d = 0 then Inl IntegerDivideByZero
      else Inr (True, Value i OpMIPSMOVWconst t
                  (int64_of_int32 (word_of_int (sint (int32 c) sdiv sint (int32 d)))) AuxNil u [],
                nv))
   \<and> rewriteValueMIPS_OpSelect0 p l nv
     (Value i OpSelect0 t x a u
        [Value i0 OpMIPSDIV t0 x0 a0 u0
           [Value i1 OpMIPSMOVWconst t1 c a1 u1 as1, Value i2 OpMIPSMOVWconst t2 d a2 u2 as2]])
   = (if int32 d = 0 then Inl IntegerDivideByZero
      else Inr (True, Value i OpMIPSMOVWconst t
                  (int64_of_int32 (word_of_int (sint (int32 c) smod sint (int32 d)))) AuxNil u [],
                nv))
   \<and> rewriteValueMIPS h nv
     (Value i OpSelect1 t x a u
        [Value i0 OpMIPSDIV t0 x0 a0 u0
           [Value i1 OpMIPSMOVWconst t1 c a1 u1 as1, Value i2 OpMIPSMOVWconst t2 0 a2 u2 as2]])
   = Inl IntegerDivideByZero
   \<and> rewriteValueMIPS h nv
     (Value i OpSelect0 t x a u
        [Value i0 OpMIPSDIV t0 x0 a0 u0
           [Value i1 OpMIPSMOVWconst t1 c a1 u1 as1, Value i2 OpMIPSMOVWconst t2 0 a2 u2 as2]])
   = Inl IntegerDivideByZero"
  by (simp add: rewriteValueMIPS_def rewriteValueMIPS_OpSelect1_def
      rewriteValueMIPS_OpSelect0_def rewrite_defs)

theorem select_div_fold_divide_by_zero_witness:
  "rewriteValueMIPS_OpSelect1 (isPowerOfTwo example_helpers) (log2 example_helpers) 10
     (Value 3 OpSelect1 TypeInt32 0 AuxNil 1
        [Value 2 OpMIPSDIV (TypeTuple TypeInt32 TypeInt32) 0 AuxNil 1
           [Value 0 OpMIPSMOVWconst TypeInt32 7 AuxNil 1 [],
            Value 1 OpMIPSMOVWconst TypeInt32 0 AuxNil 1 []]])
   = Inl IntegerDivideByZero
   \<and> rewriteValueMIPS_OpSelect0 (isPowerOfTwo example_helpers) (log2 example_helpers) 10
     (Value 3 OpSelect0 TypeInt32 0 AuxNil 1
        [Value 2 OpMIPSDIV (TypeTuple TypeInt32 TypeInt32) 0 AuxNil 1
           [Value 0 OpMIPSMOVWconst TypeInt32 7 AuxNil 1 [],
            Value 1 OpMIPSMOVWconst TypeInt32 0 AuxNil 1 []]])
   = Inl IntegerDivideByZero
   \<and> rewriteValueMIPS example_helpers 10
     (Value 3 OpSelect1 TypeInt32 0 AuxNil 1
        [Value 2 OpMIPSDIV (TypeTuple TypeInt32 TypeInt32) 0 AuxNil 1
           [Value 0 OpMIPSMOVWconst TypeInt32 7 AuxNil 1 [],
            Value 1 OpMIPSMOVWconst TypeInt32 0 AuxNil 1 []]])
   = Inl IntegerDivideByZero"
  using select_div_fold_divide_by_zero [where p = "isPowerOfTwo example_helpers"
      and l = "log2 example_helpers" and nv = 10 and i = 3 and t = TypeInt32 and x = 0
      and a = AuxNil and u = 1 and ?i0.0 = 2 and ?t0.0 = "TypeTuple TypeInt32 TypeInt32"
      and ?x0.0 = 0 and ?a0.0 = AuxNil and ?u0.0 = 1 and ?i1.0 = 0 and ?t1.0 = TypeInt32
      and c = 7 and ?a1.0 = AuxNil and ?u1.0 = 1 and ?as1.0 = "[]" and ?i2.0 = 1
      and ?t2.0 = TypeInt32 and d = 0 and ?a2.0 = AuxNil and ?u2.0 = 1 and ?as2.0 = "[]"
      and h = example_helpers]
  by (simp add: int32_def)

text \<open>
  C5. Running the engine to fixpoint on \<^verbatim>\<open>Add32 (Const32 [14]) (Const32 [26])\<close> yields a
  single \<^verbatim>\<open>MOVWconst\<close> with AuxInt 40 and no arguments. The steps: Const32 lowers to
  MOVWconst, Add32 lowers to ADD, ADD with a constant right operand becomes ADDconst, and
  ADDconst [c] of MOVWconst [d] folds to \<^verbatim>\<open>MOVWconst [int64(int32(c+d))]\<close> (for c = 0 the
  earlier rule \<^verbatim>\<open>(ADDconst [0] x)\<close> makes it a copy of the constant).
\<close>

theorem add32_const_fold:
  "applyRewrite h nv (Value 3 OpAdd32 TypeInt32 0 AuxNil 1
      [Value 1 OpConst32 TypeInt32 14 AuxNil 1 [], Value 2 OpConst32 TypeInt32 26 AuxNil 1 []])
     = Some (Inr (Value 3 OpMIPSMOVWconst TypeInt32 40 AuxNil 1 [], nv))
   \<and> rewriteValueMIPS_OpConst32 (Value i OpConst32 t val a u as)
     = Inr (True, Value i OpMIPSMOVWconst t val AuxNil u [])
   \<and> rewriteValueMIPS_OpAdd32 (Value i OpAdd32 t e a u [x, y])
     = Inr (True, Value i OpMIPSADD t 0 AuxNil u [x, y])
   \<and> rewriteValueMIPS_OpMIPSADD
        (Value i OpMIPSADD t e a u [x, Value j OpMIPSMOVWconst tj c aj uj as])
     = Inr (True, Value i OpMIPSADDconst t c AuxNil u [x])
   \<and> rewriteValueMIPS_OpMIPSADDconst
        (Value i OpMIPSADDconst t c a u [Value j OpMIPSMOVWconst tj d aj uj as])
     = Inr (True, if c = 0 then Value i OpCopy tj 0 AuxNil u [Value j OpMIPSMOVWconst tj d aj uj as]
                  else Value i OpMIPSMOVWconst t (int64_of_int32 (int32 (c + d))) AuxNil u [])"
proof -
  note defs = rewriteValueMIPS_def rewriteValueMIPS_OpAdd32_def rewriteValueMIPS_OpConst32_def
    rewriteValueMIPS_OpMIPSADD_def rewriteValueMIPS_OpMIPSADDconst_def rewrite_defs
  have run: "applyRewrite h nv (Value 3 OpAdd32 TypeInt32 0 AuxNil 1
      [Value 1 OpConst32 TypeInt32 14 AuxNil 1 [], Value 2 OpConst32 TypeInt32 26 AuxNil 1 []])
     = Some (Inr (Value 3 OpMIPSMOVWconst TypeInt32 40 AuxNil 1 [], nv))"
    apply (subst applyRewrite.simps, simp add: defs)
    apply (subst applyRewrite.simps, simp add: defs)
    apply (subst applyRewrite.simps, simp add: defs)
    apply (subst applyRewrite.simps, simp add: defs)
    done
  have steps: "rewriteValueMIPS_OpConst32 (Value i OpConst32 t val a u as)
       = Inr (True, Value i OpMIPSMOVWconst t val AuxNil u [])
     \<and> rewriteValueMIPS_OpAdd32 (Value i OpAdd32 t e a u [x, y])
       = Inr (True, Value i OpMIPSADD t 0 AuxNil u [x, y])
     \<and> rewriteValueMIPS_OpMIPSADD
          (Value i OpMIPSADD t e a u [x, Value j OpMIPSMOVWconst tj c aj uj as])
       = Inr (True, Value i OpMIPSADDconst t c AuxNil u [x])
     \<and> rewriteValueMIPS_OpMIPSADDconst
          (Value i OpMIPSADDconst t c a u [Value j OpMIPSMOVWconst tj d aj uj as])
       = Inr (True, if c = 0 then Value i OpCopy tj 0 AuxNil u [Value j OpMIPSMOVWconst tj d aj uj as]
                    else Value i OpMIPSMOVWconst t (int64_of_int32 (int32 (c + d))) AuxNil u [])"
    by (simp add: defs)
  from run steps show ?thesis by blast
qed

theorem add32_const_fold_witness:
  "applyRewrite example_helpers 4 (Value 3 OpAdd32 TypeInt32 0 AuxNil 1
      [Value 1 OpConst32 TypeInt32 14 AuxNil 1 [], Value 2 OpConst32 TypeInt32 26 AuxNil 1 []])
     = Some (Inr (Value 3 OpMIPSMOVWconst TypeInt32 40 AuxNil 1 [], 4))
   \<and> rewriteValueMIPS_OpMIPSADDconst
        (Value 3 OpMIPSADDconst TypeInt32 26 AuxNil 1 [Value 1 OpMIPSMOVWconst TypeInt32 14 AuxNil 1 []])
     = Inr (True, Value 3 OpMIPSMOVWconst TypeInt32 40 AuxNil 1 [])"
  using add32_const_fold [where h = example_helpers and nv = 4 and i = 3 and t = TypeInt32
      and val = 0 and a = AuxNil and u = 1 and as = "[]" and e = 0
      and x = "Value 1 OpMIPSMOVWconst TypeInt32 14 AuxNil 1 []"
      and y = "Value 1 OpMIPSMOVWconst TypeInt32 14 AuxNil 1 []"
      and j = 1 and tj = TypeInt32 and c = 26 and aj = AuxNil and uj = 1 and d = 14]
  by (simp add: int32_def int64_of_int32_def)

text \<open>
  C6 (counterexample). The fold of an ADDconst into the displacement of MOVWload also fires
  when the displacement does not fit 16 bits, provided the ADDconst has exactly one use: with
  off1 = 0 and off2 = 65536 the load becomes \<^verbatim>\<open>MOVWload [65536] ptr mem\<close>.
\<close>

theorem movwload_fold_counterexample:
  "\<not> is16Bit (0 + 65536)
   \<and> rewriteValueMIPS_OpMIPSMOVWload (canMergeSym example_helpers) (mergeSym example_helpers)
        (isSamePtr example_helpers)
        (Value 3 OpMIPSMOVWload TypeInt32 0 AuxNil 1
           [Value 2 OpMIPSADDconst TypeBytePtr 65536 AuxNil 1 [Value 1 OpArg TypeBytePtr 0 AuxNil 1 []],
            Value 0 OpInitMem TypeMem 0 AuxNil 1 []])
     = Inr (True, Value 3 OpMIPSMOVWload TypeInt32 65536 AuxNil 1
                    [Value 1 OpArg TypeBytePtr 0 AuxNil 1 [], Value 0 OpInitMem TypeMem 0 AuxNil 1 []])"
  by (simp add: rewriteValueMIPS_OpMIPSMOVWload_def rewrite_defs is16Bit_def)

text \<open>
  C6 (amended). For \<^verbatim>\<open>MOVWload [off1] {sym}\<close> applied to \<^verbatim>\<open>(ADDconst [off2] ptr)\<close> and a
  memory, the matcher yields \<^verbatim>\<open>MOVWload [off1+off2] {sym} ptr mem\<close> if and only if
  \<^verbatim>\<open>off1+off2\<close> fits 16 bits or the ADDconst has exactly one use; in particular a load from
  \<^verbatim>\<open>(base + 4)\<close> becomes \<^verbatim>\<open>MOVWload [4] base mem\<close>.
\<close>

theorem movwload_fold_iff:
  "(rewriteValueMIPS_OpMIPSMOVWload cm ms sp
      (Value i OpMIPSMOVWload t off1 sy u
         [Value j OpMIPSADDconst tj off2 aj uj (ptr # rest), mem])
     = Inr (True, Value i OpMIPSMOVWload t (off1 + off2) sy u [ptr, mem]))
    = (is16Bit (off1 + off2) \<or> uj = 1)
   \<and> rewriteValueMIPS_OpMIPSMOVWload cm ms sp
      (Value i OpMIPSMOVWload t 0 sy u [Value j OpMIPSADDconst tj 4 aj uj [base], mem])
     = Inr (True, Value i OpMIPSMOVWload t 4 sy u [base, mem])"
proof -
  have "(rewriteValueMIPS_OpMIPSMOVWload cm ms sp
      (Value i OpMIPSMOVWload t off1 sy u
         [Value j OpMIPSADDconst tj off2 aj uj (ptr # rest), mem])
     = Inr (True, Value i OpMIPSMOVWload t (off1 + off2) sy u [ptr, mem]))
    = (is16Bit (off1 + off2) \<or> uj = 1)"
    by (auto simp add: rewriteValueMIPS_OpMIPSMOVWload_def rewrite_defs split: sum.splits)
  moreover have "is16Bit (0 + 4)"
    by (simp add: is16Bit_def)
  then have "rewriteValueMIPS_OpMIPSMOVWload cm ms sp
      (Value i OpMIPSMOVWload t 0 sy u [Value j OpMIPSADDconst tj 4 aj uj [base], mem])
     = Inr (True, Value i OpMIPSMOVWload t 4 sy u [base, mem])"
    by (simp add: rewriteValueMIPS_OpMIPSMOVWload_def rewrite_defs)
  ultimately show ?thesis by blast
qed

theorem movwload_fold_iff_witness:
  "is16Bit (0 + 4)
   \<and> rewriteValueMIPS_OpMIPSMOVWload (canMergeSym example_helpers) (mergeSym example_helpers)
        (isSamePtr example_helpers)
        (Value 3 OpMIPSMOVWload TypeInt32 0 AuxNil 1
           [Value 2 OpMIPSADDconst TypeBytePtr 4 AuxNil 2 [Value 1 OpArg TypeBytePtr 0 AuxNil 1 []],
            Value 0 OpInitMem TypeMem 0 AuxNil 1 []])
     = Inr (True, Value 3 OpMIPSMOVWload TypeInt32 4 AuxNil 1
                    [Value 1 OpArg TypeBytePtr 0 AuxNil 1 [], Value 0 OpInitMem TypeMem 0 AuxNil 1 []])"
  using movwload_fold_iff [where cm = "canMergeSym example_helpers"
      and ms = "mergeSym example_helpers" and sp = "isSamePtr example_helpers"
      and i = 3 and t = TypeInt32 and ?off1.0 = 0 and sy = AuxNil and u = 1 and j = 2
      and tj = TypeBytePtr and ?off2.0 = 4 and aj = AuxNil and uj = 2
      and ptr = "Value 1 OpArg TypeBytePtr 0 AuxNil 1 []" and rest = "[]"
      and mem = "Value 0 OpInitMem TypeMem 0 AuxNil 1 []"
      and base = "Value 1 OpArg TypeBytePtr 0 AuxNil 1 []"]
  by (simp add: is16Bit_def)




section \<open>Properties of the block rewriter\<close>

lemmas block_defs = control0_def Reset_def AddControl_def swapSuccessors_def finishB_def

lemma rewriteBlock_fixpoint_not_If: "rewriteBlockMIPS b = Inr (False, b') \<Longrightarrow> Kind b \<noteq> BlockIf"
  by (auto simp: rewriteBlockMIPS_def block_defs bindP_def split: list.splits)

lemma rewriteBlock_If:
  "Kind b = BlockIf \<Longrightarrow> Controls b = c # cs \<Longrightarrow>
   rewriteBlockMIPS b = Inr (True, b\<lparr>Kind := BlockMIPSNE, Controls := [c]\<rparr>)"
  by (simp add: rewriteBlockMIPS_def block_defs bindP_def)

lemma rewriteBlock_EQ_const:
  "Kind b = BlockMIPSEQ \<Longrightarrow> Controls b = c # cs \<Longrightarrow> Op c = OpMIPSMOVWconst \<Longrightarrow>
   Succs b = [yes, no] \<Longrightarrow>
   rewriteBlockMIPS b = Inr (True, b\<lparr>Kind := BlockFirst, Controls := [],
       Succs := (if AuxInt c = 0 then [yes, no] else [no, yes])\<rparr>)"
  by (simp add: rewriteBlockMIPS_def block_defs bindP_def)

lemma rewriteBlock_NE_const:
  "Kind b = BlockMIPSNE \<Longrightarrow> Controls b = c # cs \<Longrightarrow> Op c = OpMIPSMOVWconst \<Longrightarrow>
   Succs b = [yes, no] \<Longrightarrow>
   rewriteBlockMIPS b = Inr (True, b\<lparr>Kind := BlockFirst, Controls := [],
       Succs := (if AuxInt c = 0 then [no, yes] else [yes, no])\<rparr>)"
  by (simp add: rewriteBlockMIPS_def block_defs bindP_def)

lemma rewriteBlock_fixpoint_not_const:
  "rewriteBlockMIPS b = Inr (False, b') \<Longrightarrow> Kind b = BlockMIPSEQ \<or> Kind b = BlockMIPSNE \<Longrightarrow>
   Controls b = c # cs \<Longrightarrow> Op c \<noteq> OpMIPSMOVWconst"
  by (auto simp: rewriteBlockMIPS_def block_defs bindP_def split: if_splits list.splits)

text \<open>
  C4. When \<^verbatim>\<open>rewriteBlockMIPS\<close> returns false for every block, no block is an If block, and no
  EQ or NE block has a MOVWconst as its control value. An If block is rewritten to NE with the
  same control; an EQ or NE block whose control is a MOVWconst is rewritten to First, with the
  two successors swapped exactly when the constant makes the second successor the one taken
  (EQ with a non-zero constant, NE with zero).
\<close>

theorem block_rewriter_fixpoint:
  "((\<forall>b \<in> set bs. \<exists>b'. rewriteBlockMIPS b = Inr (False, b')) \<longrightarrow>
      (\<forall>b \<in> set bs. Kind b \<noteq> BlockIf \<and>
         (\<forall>c cs. (Kind b = BlockMIPSEQ \<or> Kind b = BlockMIPSNE) \<and> Controls b = c # cs
            \<longrightarrow> Op c \<noteq> OpMIPSMOVWconst)))
   \<and> (Kind b1 = BlockIf \<and> Controls b1 = c1 # cs1 \<longrightarrow>
        rewriteBlockMIPS b1 = Inr (True, b1\<lparr>Kind := BlockMIPSNE, Controls := [c1]\<rparr>))
   \<and> ((Kind b2 = BlockMIPSEQ \<or> Kind b2 = BlockMIPSNE) \<and> Controls b2 = c2 # cs2
        \<and> Op c2 = OpMIPSMOVWconst \<and> Succs b2 = [yes, no] \<longrightarrow>
        rewriteBlockMIPS b2 = Inr (True, b2\<lparr>Kind := BlockFirst, Controls := [],
          Succs := (if (Kind b2 = BlockMIPSEQ) = (AuxInt c2 = 0) then [yes, no] else [no, yes])\<rparr>))"
proof (intro conjI impI ballI allI)
  fix b assume "\<forall>b \<in> set bs. \<exists>b'. rewriteBlockMIPS b = Inr (False, b')" and "b \<in> set bs"
  then obtain b' where stable: "rewriteBlockMIPS b = Inr (False, b')" by blast
  then show "Kind b \<noteq> BlockIf" by (rule rewriteBlock_fixpoint_not_If)
  fix c cs
  assume "(Kind b = BlockMIPSEQ \<or> Kind b = BlockMIPSNE) \<and> Controls b = c # cs"
  with stable show "Op c \<noteq> OpMIPSMOVWconst"
    using rewriteBlock_fixpoint_not_const by blast
next
  assume "Kind b1 = BlockIf \<and> Controls b1 = c1 # cs1"
  then show "rewriteBlockMIPS b1 = Inr (True, b1\<lparr>Kind := BlockMIPSNE, Controls := [c1]\<rparr>)"
    by (simp add: rewriteBlock_If)
next
  assume h: "(Kind b2 = BlockMIPSEQ \<or> Kind b2 = BlockMIPSNE) \<and> Controls b2 = c2 # cs2
        \<and> Op c2 = OpMIPSMOVWconst \<and> Succs b2 = [yes, no]"
  then consider "Kind b2 = BlockMIPSEQ" | "Kind b2 = BlockMIPSNE" by blast
  then show "rewriteBlockMIPS b2 = Inr (True, b2\<lparr>Kind := BlockFirst, Controls := [],
          Succs := (if (Kind b2 = BlockMIPSEQ) = (AuxInt c2 = 0) then [yes, no] else [no, yes])\<rparr>)"
  proof cases
    case 1
    with h show ?thesis by (simp add: rewriteBlock_EQ_const)
  next
    case 2
    with h show ?thesis by (simp add: rewriteBlock_NE_const)
  qed
qed

theorem block_rewriter_fixpoint_witness:
  "rewriteBlockMIPS \<lparr>ID = 1, Kind = BlockMIPSNE, Values = [], Preds = [], Succs = [2, 3],
        Controls = [Value 5 OpMIPSSGT TypeBool 0 AuxNil 1 []]\<rparr>
     = Inr (False, \<lparr>ID = 1, Kind = BlockMIPSNE, Values = [], Preds = [], Succs = [2, 3],
        Controls = [Value 5 OpMIPSSGT TypeBool 0 AuxNil 1 []]\<rparr>)
   \<and> rewriteBlockMIPS \<lparr>ID = 2, Kind = BlockFirst, Values = [], Preds = [1], Succs = [3],
        Controls = []\<rparr>
     = Inr (False, \<lparr>ID = 2, Kind = BlockFirst, Values = [], Preds = [1], Succs = [3],
        Controls = []\<rparr>)
   \<and> Kind \<lparr>ID = 1, Kind = BlockMIPSNE, Values = [], Preds = [], Succs = [2, 3],
        Controls = [Value 5 OpMIPSSGT TypeBool 0 AuxNil 1 []]\<rparr> \<noteq> BlockIf
   \<and> Kind \<lparr>ID = 2, Kind = BlockFirst, Values = [], Preds = [1], Succs = [3],
        Controls = []\<rparr> \<noteq> BlockIf
   \<and> rewriteBlockMIPS \<lparr>ID = 4, Kind = BlockIf, Values = [], Preds = [], Succs = [2, 3],
        Controls = [Value 6 OpArg TypeBool 0 AuxNil 1 []]\<rparr>
     = Inr (True, \<lparr>ID = 4, Kind = BlockMIPSNE, Values = [], Preds = [], Succs = [2, 3],
        Controls = [Value 6 OpArg TypeBool 0 AuxNil 1 []]\<rparr>)
   \<and> rewriteBlockMIPS \<lparr>ID = 5, Kind = BlockMIPSEQ, Values = [], Preds = [], Succs = [2, 3],
        Controls = [Value 7 OpMIPSMOVWconst TypeInt32 7 AuxNil 1 []]\<rparr>
     = Inr (True, \<lparr>ID = 5, Kind = BlockFirst, Values = [], Preds = [], Succs = [3, 2],
        Controls = []\<rparr>)"
proof -
  let ?bne = "\<lparr>ID = 1, Kind = BlockMIPSNE, Values = [], Preds = [], Succs = [2, 3],
        Controls = [Value 5 OpMIPSSGT TypeBool 0 AuxNil 1 []]\<rparr>"
  let ?bf = "\<lparr>ID = 2, Kind = BlockFirst, Values = [], Preds = [1], Succs = [3],
        Controls = []\<rparr>"
  let ?b1 = "\<lparr>ID = 4, Kind = BlockIf, Values = [], Preds = [], Succs = [2, 3],
        Controls = [Value 6 OpArg TypeBool 0 AuxNil 1 []]\<rparr>"
  let ?b2 = "\<lparr>ID = 5, Kind = BlockMIPSEQ, Values = [], Preds = [], Succs = [2, 3],
        Controls = [Value 7 OpMIPSMOVWconst TypeInt32 7 AuxNil 1 []]\<rparr>"
  have r1: "rewriteBlockMIPS ?bne = Inr (False, ?bne)"
    by (simp add: rewriteBlockMIPS_def block_defs bindP_def)
  have r2: "rewriteBlockMIPS ?bf = Inr (False, ?bf)"
    by (simp add: rewriteBlockMIPS_def)
  have h1: "\<forall>b \<in> set [?bne, ?bf]. \<exists>b'. rewriteBlockMIPS b = Inr (False, b')"
    using r1 r2 by simp
  have h2: "Kind ?b1 = BlockIf \<and> Controls ?b1 = Value 6 OpArg TypeBool 0 AuxNil 1 [] # []"
    by simp
  have h3: "(Kind ?b2 = BlockMIPSEQ \<or> Kind ?b2 = BlockMIPSNE)
      \<and> Controls ?b2 = Value 7 OpMIPSMOVWconst TypeInt32 7 AuxNil 1 [] # []
      \<and> Op (Value 7 OpMIPSMOVWconst TypeInt32 7 AuxNil 1 []) = OpMIPSMOVWconst
      \<and> Succs ?b2 = [2, 3]"
    by simp
  note inst = block_rewriter_fixpoint [of "[?bne, ?bf]" ?b1 "Value 6 OpArg TypeBool 0 AuxNil 1 []" "[]"
      ?b2 "Value 7 OpMIPSMOVWconst TypeInt32 7 AuxNil 1 []" "[]" 2 3]
  from inst h1 have c1: "Kind ?bne \<noteq> BlockIf \<and> Kind ?bf \<noteq> BlockIf"
    by simp
  from inst h2 have c2: "rewriteBlockMIPS ?b1 = Inr (True, ?b1\<lparr>Kind := BlockMIPSNE,
      Controls := [Value 6 OpArg TypeBool 0 AuxNil 1 []]\<rparr>)"
    by blast
  from inst h3 have c3: "rewriteBlockMIPS ?b2 = Inr (True, ?b2\<lparr>Kind := BlockFirst, Controls := [],
      Succs := (if (Kind ?b2 = BlockMIPSEQ)
                   = (AuxInt (Value 7 OpMIPSMOVWconst TypeInt32 7 AuxNil 1 []) = 0)
                then [2, 3] else [3, 2])\<rparr>)"
    by blast
  from r1 r2 c1 c2 c3 show ?thesis by simp
qed

end
